theory Spec2Isabelle
  imports Main "HOL-Library.Multiset"
begin

section \<open>PawSync: data model (shared/schema.ts)\<close>

text \<open>
  Every table of \<^verbatim>\<open>shared/schema.ts\<close> that the verified functions touch is a record;
  a table is the list of its rows in insertion order. A nullable column is an
  \<open>option\<close>. Timestamps are milliseconds since the epoch (what \<^verbatim>\<open>Date.getTime()\<close>
  returns), ids and tokens are strings. Field names carry a one-letter table prefix
  because the tables share column names (\<^verbatim>\<open>id\<close>, \<^verbatim>\<open>createdAt\<close>, ...).

  A string is the list of its bytes in UTF-8, the encoding in which the driver sends
  it and PostgreSQL stores it. The space (0x20) and the NUL character (0x00) are single
  bytes that occur in the encoding of no other character, so splitting at a space and
  looking for NUL are the same on the bytes as on the characters.
\<close>

type_synonym ident = string
type_synonym timestamp = int

text \<open>
  Modelled from the spec: the \<^verbatim>\<open>users\<close> table is declared in
  \<^verbatim>\<open>shared/models/auth\<close>, which is not among the sources. Its columns are the ones
  the storage layer and the route handlers read or write (\<^verbatim>\<open>updateUser\<close>'s
  \<^verbatim>\<open>Pick\<close> type, \<^verbatim>\<open>updatedAt\<close>, the seed data); the role is unset until a
  workspace flow assigns it.
\<close>

record user =
  u_id :: ident
  u_email :: "string option"
  u_firstName :: "string option"
  u_lastName :: "string option"
  u_profileImageUrl :: "string option"
  u_role :: "string option"
  u_onboardingComplete :: bool
  u_updatedAt :: timestamp

record workspace =
  w_id :: ident
  w_trainerUserId :: ident
  w_inviteToken :: string
  w_businessName :: "string option"
  w_bio :: "string option"
  w_createdAt :: timestamp

record workspaceMember =
  m_id :: ident
  m_workspaceId :: ident
  m_userId :: ident
  m_role :: string
  m_createdAt :: timestamp

record pet =
  p_id :: ident
  p_name :: string
  p_species :: "string option"
  p_breed :: "string option"
  p_age :: "string option"
  p_ownerPhone :: "string option"
  p_imageUrl :: "string option"
  p_ownerId :: ident
  p_trainerId :: "ident option"
  p_workspaceId :: "ident option"
  p_createdAt :: timestamp

record homeworkTask =
  t_id :: ident
  t_petId :: ident
  t_createdByTrainerId :: ident
  t_title :: string
  t_instructions :: string
  t_frequency :: string
  t_expectedDurationMins :: "int option"
  t_isActive :: bool
  t_preferredDays :: "string list option"
  t_createdAt :: timestamp

record homeworkSubmission =
  s_id :: ident
  s_taskId :: ident
  s_submittedByUserId :: ident
  s_note :: "string option"
  s_status :: string
  s_submittedAt :: timestamp
  s_createdAt :: timestamp

record submissionMedia =
  sm_id :: ident
  sm_submissionId :: ident
  sm_mediaType :: string
  sm_filePath :: string
  sm_fileName :: "string option"
  sm_createdAt :: timestamp

record trainerComment =
  c_id :: ident
  c_submissionId :: ident
  c_trainerId :: ident
  c_comment :: string
  c_createdAt :: timestamp

text \<open>
  \<^verbatim>\<open>HomeworkSubmissionWithRelations\<close>: a submission row together with the comments
  loaded through the \<^verbatim>\<open>comments\<close> relation. The other relation payloads
  (\<^verbatim>\<open>task\<close>, \<^verbatim>\<open>submittedBy\<close>, \<^verbatim>\<open>media\<close>, a comment's \<^verbatim>\<open>trainer\<close>) are
  copies of rows that none of the functions below reads, and are left out.
\<close>

record homeworkSubmissionWithRelations = homeworkSubmission +
  comments :: "trainerComment list"

record database =
  users :: "user list"
  workspaces :: "workspace list"
  workspaceMembers :: "workspaceMember list"
  pets :: "pet list"
  homeworkTasks :: "homeworkTask list"
  homeworkSubmissions :: "homeworkSubmission list"
  submissionMediaRows :: "submissionMedia list"
  trainerComments :: "trainerComment list"

text \<open>
  \<^verbatim>\<open>TimelineItem = {type, date, data}\<close>; \<^verbatim>\<open>data\<close> is the union of the three row
  types.
\<close>

datatype timelineData =
  TaskData homeworkTask
  | SubmissionData homeworkSubmissionWithRelations
  | CommentData trainerComment

record timelineItem =
  ti_type :: string
  ti_date :: timestamp
  ti_data :: timelineData

section \<open>Storage layer (server/storage.ts): queries\<close>

text \<open>
  Every method of the storage layer sends one or more statements to PostgreSQL and
  throws when the database refuses one. PostgreSQL refuses a text value that contains
  the NUL character, in a row to write as well as in a value to compare with, before
  the statement reads or writes anything. \<open>sent params result\<close> is the outcome of
  a statement with the text parameters \<open>params\<close> whose effect, once accepted, is
  \<open>result\<close>.
\<close>

datatype dbError = InvalidText | UniqueViolation | ForeignKeyViolation | NotNullViolation

definition pgText :: "string \<Rightarrow> bool" where
  "pgText s = (CHR 0x00 \<notin> set s)"

definition sent :: "string list \<Rightarrow> 'a \<Rightarrow> dbError + 'a" where
  "sent params result = (if list_all pgText params then Inr result else Inl InvalidText)"

text \<open>The text of a nullable column: nothing is sent for \<^verbatim>\<open>null\<close>.\<close>

definition textOf :: "string option \<Rightarrow> string list" where
  "textOf x = (case x of None \<Rightarrow> [] | Some s \<Rightarrow> [s])"

text \<open>
  \<^verbatim>\<open>orderBy: [desc(col)]\<close>: rows by descending \<open>col\<close>. SQL leaves the order of
  rows with equal keys open, and PostgreSQL compares the stored microseconds where the
  model has the milliseconds that the driver delivers; the model keeps rows with equal
  keys in table order (a stable sort). Nothing below depends on the order of such rows.
\<close>

definition orderByDesc :: "('a \<Rightarrow> timestamp) \<Rightarrow> 'a list \<Rightarrow> 'a list" where
  "orderByDesc col rows = sort_key (\<lambda>r. - col r) rows"

definition getTasksByPet :: "database \<Rightarrow> ident \<Rightarrow> dbError + homeworkTask list" where
  "getTasksByPet db petId =
     sent [petId] (orderByDesc t_createdAt (filter (\<lambda>t. t_petId t = petId) (homeworkTasks db)))"

text \<open>The \<^verbatim>\<open>comments\<close> relation of a submission: the comment rows that reference it.\<close>

definition commentsOf :: "database \<Rightarrow> ident \<Rightarrow> trainerComment list" where
  "commentsOf db submissionId =
     filter (\<lambda>c. c_submissionId c = submissionId) (trainerComments db)"

definition withRelations :: "database \<Rightarrow> homeworkSubmission \<Rightarrow> homeworkSubmissionWithRelations" where
  "withRelations db s =
     \<lparr>s_id = s_id s, s_taskId = s_taskId s, s_submittedByUserId = s_submittedByUserId s,
      s_note = s_note s, s_status = s_status s, s_submittedAt = s_submittedAt s,
      s_createdAt = s_createdAt s, comments = commentsOf db (s_id s)\<rparr>"

text \<open>
  \<^verbatim>\<open>getSubmissionsByPet\<close> selects the pet's tasks and, unless there are none, the
  submissions whose task id is one of theirs. The second statement compares with ids
  that were just read from the table.
\<close>

definition getSubmissionsByPet ::
  "database \<Rightarrow> ident \<Rightarrow> dbError + homeworkSubmissionWithRelations list" where
  "getSubmissionsByPet db petId =
     (case sent [petId] (filter (\<lambda>t. t_petId t = petId) (homeworkTasks db)) of
        Inl e \<Rightarrow> Inl e
      | Inr tasks \<Rightarrow>
          (let taskIds = map t_id tasks
           in if length taskIds = 0 then Inr []
              else Inr (map (withRelations db)
                     (orderByDesc s_submittedAt
                        (filter (\<lambda>s. list_ex (\<lambda>i. s_taskId s = i) taskIds)
                           (homeworkSubmissions db))))))"

section \<open>Timeline aggregation (DatabaseStorage.getTimeline)\<close>

text \<open>
  \<^verbatim>\<open>Array.prototype.sort(compare)\<close>: a stable sort (ECMAScript 2019); \<open>a\<close> is placed
  before \<open>b\<close> when \<open>compare a b \<le> 0\<close>. The comparator of \<^verbatim>\<open>getTimeline\<close> is a
  difference of two \<^verbatim>\<open>getTime()\<close> values, an integer.
\<close>

fun insertSorted :: "('a \<Rightarrow> 'a \<Rightarrow> int) \<Rightarrow> 'a \<Rightarrow> 'a list \<Rightarrow> 'a list" where
  "insertSorted compare a [] = [a]"
| "insertSorted compare a (b # bs) =
     (if compare a b \<le> 0 then a # b # bs else b # insertSorted compare a bs)"

definition arraySort :: "('a \<Rightarrow> 'a \<Rightarrow> int) \<Rightarrow> 'a list \<Rightarrow> 'a list" where
  "arraySort compare xs = foldr (insertSorted compare) xs []"

definition taskItem :: "homeworkTask \<Rightarrow> timelineItem" where
  "taskItem task = \<lparr>ti_type = ''task'', ti_date = t_createdAt task, ti_data = TaskData task\<rparr>"

definition submissionItem :: "homeworkSubmissionWithRelations \<Rightarrow> timelineItem" where
  "submissionItem submission =
     \<lparr>ti_type = ''submission'', ti_date = s_submittedAt submission, ti_data = SubmissionData submission\<rparr>"

definition commentItem :: "trainerComment \<Rightarrow> timelineItem" where
  "commentItem comment =
     \<lparr>ti_type = ''comment'', ti_date = c_createdAt comment, ti_data = CommentData comment\<rparr>"

text \<open>The two \<^verbatim>\<open>for ... of\<close> loops, each \<^verbatim>\<open>push\<close> appending to the array.\<close>

definition pushTasks :: "timelineItem list \<Rightarrow> homeworkTask list \<Rightarrow> timelineItem list" where
  "pushTasks timelineItems tasks = foldl (\<lambda>items task. items @ [taskItem task]) timelineItems tasks"

definition pushSubmissions ::
  "timelineItem list \<Rightarrow> homeworkSubmissionWithRelations list \<Rightarrow> timelineItem list" where
  "pushSubmissions timelineItems submissions =
     foldl (\<lambda>items submission.
              foldl (\<lambda>items' comment. items' @ [commentItem comment])
                (items @ [submissionItem submission]) (comments submission))
       timelineItems submissions"

definition compareDates :: "timelineItem \<Rightarrow> timelineItem \<Rightarrow> int" where
  "compareDates a b = ti_date b - ti_date a"

definition getTimeline :: "database \<Rightarrow> ident \<Rightarrow> dbError + timelineItem list" where
  "getTimeline db petId =
     (case getTasksByPet db petId of
        Inl e \<Rightarrow> Inl e
      | Inr tasks \<Rightarrow>
     (case getSubmissionsByPet db petId of
        Inl e \<Rightarrow> Inl e
      | Inr submissions \<Rightarrow>
          (let timelineItems = pushSubmissions (pushTasks [] tasks) submissions
           in Inr (arraySort compareDates timelineItems))))"

text \<open>
  What the timeline is specified against: the rows of a pet in the tables themselves,
  each selected by its own foreign key. \<open>T\<close>, \<open>S\<close> and \<open>C\<close> of the
  specification are the lengths of these three lists. \<open>entryRow\<close> is the table row
  an entry stands for (for a submission, the row without the relations loaded with
  it), \<open>entryType\<close> the type the entry must carry and \<open>entryDate\<close> the date the
  specification assigns to it.
\<close>

definition petTaskRows :: "database \<Rightarrow> ident \<Rightarrow> homeworkTask list" where
  "petTaskRows db petId = filter (\<lambda>t. t_petId t = petId) (homeworkTasks db)"

definition petSubmissionRows :: "database \<Rightarrow> ident \<Rightarrow> homeworkSubmission list" where
  "petSubmissionRows db petId =
     filter (\<lambda>s. s_taskId s \<in> set (map t_id (petTaskRows db petId))) (homeworkSubmissions db)"

definition petCommentRows :: "database \<Rightarrow> ident \<Rightarrow> trainerComment list" where
  "petCommentRows db petId =
     filter (\<lambda>c. c_submissionId c \<in> set (map s_id (petSubmissionRows db petId)))
       (trainerComments db)"

datatype tableRow =
  TaskRow homeworkTask
  | SubmissionRow homeworkSubmission
  | CommentRow trainerComment

fun entryRow :: "timelineData \<Rightarrow> tableRow" where
  "entryRow (TaskData task) = TaskRow task"
| "entryRow (SubmissionData submission) =
     SubmissionRow \<lparr>s_id = s_id submission, s_taskId = s_taskId submission,
                    s_submittedByUserId = s_submittedByUserId submission,
                    s_note = s_note submission, s_status = s_status submission,
                    s_submittedAt = s_submittedAt submission,
                    s_createdAt = s_createdAt submission\<rparr>"
| "entryRow (CommentData comment) = CommentRow comment"

fun entryType :: "timelineData \<Rightarrow> string" where
  "entryType (TaskData task) = ''task''"
| "entryType (SubmissionData submission) = ''submission''"
| "entryType (CommentData comment) = ''comment''"

fun entryDate :: "timelineData \<Rightarrow> timestamp" where
  "entryDate (TaskData task) = t_createdAt task"
| "entryDate (SubmissionData submission) = s_submittedAt submission"
| "entryDate (CommentData comment) = c_createdAt comment"

section \<open>Calendar view (CalendarView in client/src/pages/pet-detail.tsx)\<close>

text \<open>
  \<^verbatim>\<open>getDay\<close> and \<^verbatim>\<open>isSameDay\<close> come from the date-fns package and
  \<^verbatim>\<open>toLowerCase\<close> from the JavaScript runtime; none of them is part of the
  repository. They depend on the time zone of the browser and on the Unicode tables of
  the runtime, so the functions of the component take them as parameters:
  \<open>getDay\<close> maps a date to the number of its weekday (0 for Sunday to 6 for
  Saturday), \<open>isSameDay\<close> tells whether two dates fall on the same calendar day, and
  \<open>toLowerCase\<close> maps a string to its lower-case form.

  \<^verbatim>\<open>dayNameToNumber: Record<string, number>\<close>; a key that is not in the object reads
  as \<^verbatim>\<open>undefined\<close>, which \<^verbatim>\<open>===\<close> no day number.
\<close>

definition dayNameToNumber :: "string \<Rightarrow> nat option" where
  "dayNameToNumber = map_of
     [(''Sun'', 0), (''Mon'', 1), (''Tue'', 2), (''Wed'', 3), (''Thu'', 4), (''Fri'', 5), (''Sat'', 6)]"

definition getSubmissionsForDay ::
  "(timestamp \<Rightarrow> timestamp \<Rightarrow> bool) \<Rightarrow> 'b homeworkSubmission_scheme list \<Rightarrow> timestamp
     \<Rightarrow> 'b homeworkSubmission_scheme list" where
  "getSubmissionsForDay isSameDay submissions day =
     filter (\<lambda>sub. isSameDay (s_submittedAt sub) day) submissions"

text \<open>
  The arrow function that \<^verbatim>\<open>getTasksForDay\<close> passes to \<^verbatim>\<open>tasks.filter\<close>;
  \<^verbatim>\<open>task.frequency?.toLowerCase() || ""\<close> is the lower-cased frequency, the
  column being a string.
\<close>

definition isTaskForDay :: "(string \<Rightarrow> string) \<Rightarrow> nat \<Rightarrow> 'a homeworkTask_scheme \<Rightarrow> bool" where
  "isTaskForDay toLowerCase dayOfWeek task =
     (case t_preferredDays task of
        Some (d # ds) \<Rightarrow> list_ex (\<lambda>d'. dayNameToNumber d' = Some dayOfWeek) (d # ds)
      | _ \<Rightarrow>
          (let freq = toLowerCase (t_frequency task)
           in if freq = ''daily'' then True
              else if freq = ''3x/week'' \<or> freq = ''3x per week''
                then dayOfWeek = 1 \<or> dayOfWeek = 3 \<or> dayOfWeek = 5
              else if freq = ''2x/week'' \<or> freq = ''2x per week''
                then dayOfWeek = 2 \<or> dayOfWeek = 5
              else if freq = ''weekly'' then dayOfWeek = 1
              else True))"

definition getTasksForDay ::
  "(string \<Rightarrow> string) \<Rightarrow> (timestamp \<Rightarrow> nat) \<Rightarrow> 'a homeworkTask_scheme list \<Rightarrow> timestamp
     \<Rightarrow> 'a homeworkTask_scheme list" where
  "getTasksForDay toLowerCase getDay tasks day =
     (let dayOfWeek = getDay day in filter (isTaskForDay toLowerCase dayOfWeek) tasks)"

datatype dayStatus = Status_none | Status_future | Status_complete | Status_partial | Status_missed

text \<open>
  \<^verbatim>\<open>getDayStatus\<close> closes over the component's \<^verbatim>\<open>tasks\<close> and \<^verbatim>\<open>submissions\<close>
  and reads the clock (\<^verbatim>\<open>new Date()\<close>): \<open>now\<close> is the time of the call.
\<close>

definition getDayStatus ::
  "(string \<Rightarrow> string) \<Rightarrow> (timestamp \<Rightarrow> nat) \<Rightarrow> (timestamp \<Rightarrow> timestamp \<Rightarrow> bool) \<Rightarrow> timestamp
     \<Rightarrow> 'a homeworkTask_scheme list \<Rightarrow> 'b homeworkSubmission_scheme list
     \<Rightarrow> timestamp \<Rightarrow> dayStatus" where
  "getDayStatus toLowerCase getDay isSameDay now tasks submissions day =
     (let tasksForDay = getTasksForDay toLowerCase getDay tasks day;
          subsForDay = getSubmissionsForDay isSameDay submissions day
      in if length tasksForDay = 0 then Status_none
         else if day > now then Status_future
         else
           (let completedTaskCount =
                  length (filter (\<lambda>task. list_ex (\<lambda>sub. s_taskId sub = t_id task) subsForDay)
                            tasksForDay)
            in if completedTaskCount \<ge> length tasksForDay then Status_complete
               else if completedTaskCount > 0 then Status_partial
               else Status_missed))"

text \<open>
  The classifier as the specification words it. \<open>weekdayAbbreviation\<close> is the
  abbreviation of the day's weekday. \<open>claimedFrequencyDays\<close> is the frequency table
  read literally (the strings compared as they are stored); \<open>frequencyDays\<close> is
  the same table applied to the lower-cased string.
\<close>

definition weekdayAbbreviation :: "(timestamp \<Rightarrow> nat) \<Rightarrow> timestamp \<Rightarrow> string" where
  "weekdayAbbreviation getDay day =
     [''Sun'', ''Mon'', ''Tue'', ''Wed'', ''Thu'', ''Fri'', ''Sat''] ! getDay day"

definition everyDay :: "string list" where
  "everyDay = [''Sun'', ''Mon'', ''Tue'', ''Wed'', ''Thu'', ''Fri'', ''Sat'']"

definition claimedFrequencyDays :: "string \<Rightarrow> string list" where
  "claimedFrequencyDays frequency =
     (if frequency = ''daily'' then everyDay
      else if frequency = ''3x/week'' \<or> frequency = ''3x per week'' then [''Mon'', ''Wed'', ''Fri'']
      else if frequency = ''2x/week'' \<or> frequency = ''2x per week'' then [''Tue'', ''Fri'']
      else if frequency = ''weekly'' then [''Mon'']
      else everyDay)"

definition frequencyDays :: "(string \<Rightarrow> string) \<Rightarrow> string \<Rightarrow> string list" where
  "frequencyDays toLowerCase frequency = claimedFrequencyDays (toLowerCase frequency)"

definition scheduledBy ::
  "(string \<Rightarrow> string list) \<Rightarrow> (timestamp \<Rightarrow> nat) \<Rightarrow> timestamp \<Rightarrow> 'a homeworkTask_scheme \<Rightarrow> bool" where
  "scheduledBy table getDay day task =
     (case t_preferredDays task of
        None \<Rightarrow> weekdayAbbreviation getDay day \<in> set (table (t_frequency task))
      | Some days \<Rightarrow>
          if days = [] then weekdayAbbreviation getDay day \<in> set (table (t_frequency task))
          else weekdayAbbreviation getDay day \<in> set days)"

definition hasSameDaySubmission ::
  "(timestamp \<Rightarrow> timestamp \<Rightarrow> bool) \<Rightarrow> 'b homeworkSubmission_scheme list \<Rightarrow> timestamp
     \<Rightarrow> 'a homeworkTask_scheme \<Rightarrow> bool" where
  "hasSameDaySubmission isSameDay submissions day task =
     list_ex (\<lambda>sub. s_taskId sub = t_id task \<and> isSameDay (s_submittedAt sub) day) submissions"

definition statusBy ::
  "(string \<Rightarrow> string list) \<Rightarrow> (timestamp \<Rightarrow> nat) \<Rightarrow> (timestamp \<Rightarrow> timestamp \<Rightarrow> bool) \<Rightarrow> timestamp
     \<Rightarrow> 'a homeworkTask_scheme list \<Rightarrow> 'b homeworkSubmission_scheme list \<Rightarrow> timestamp
     \<Rightarrow> dayStatus" where
  "statusBy table getDay isSameDay now tasks submissions day =
     (let scheduled = filter (scheduledBy table getDay day) tasks
      in if scheduled = [] then Status_none
         else if now < day then Status_future
         else if list_all (hasSameDaySubmission isSameDay submissions day) scheduled then Status_complete
         else if list_ex (hasSameDaySubmission isSameDay submissions day) scheduled then Status_partial
         else Status_missed)"
section \<open>Storage layer (server/storage.ts): lookups and writes\<close>

text \<open>
  Reads that destructure the first row of a \<^verbatim>\<open>select\<close>, or use \<^verbatim>\<open>findFirst\<close>,
  return the first matching row of the table or nothing. The definitions are the
  result of the statement when PostgreSQL accepts the value to compare with. The ids
  of a session and the ids and tokens that a statement below assumes to be found are
  such values (what is stored is accepted text); the invite validation, which is also
  about tokens that match nothing, sends its token through \<open>sent\<close>.
\<close>

definition getUser :: "database \<Rightarrow> ident \<Rightarrow> user option" where
  "getUser db rowId = find (\<lambda>u. u_id u = rowId) (users db)"

definition getPet :: "database \<Rightarrow> ident \<Rightarrow> pet option" where
  "getPet db rowId = find (\<lambda>p. p_id p = rowId) (pets db)"

definition getTask :: "database \<Rightarrow> ident \<Rightarrow> homeworkTask option" where
  "getTask db rowId = find (\<lambda>t. t_id t = rowId) (homeworkTasks db)"

definition getWorkspaceMembers :: "database \<Rightarrow> ident \<Rightarrow> workspaceMember list" where
  "getWorkspaceMembers db workspaceId =
     filter (\<lambda>m. m_workspaceId m = workspaceId) (workspaceMembers db)"

text \<open>
  \<^verbatim>\<open>WorkspaceWithRelations\<close>: the row with its \<^verbatim>\<open>trainer\<close> (the user that
  \<^verbatim>\<open>trainerUserId\<close> references) and its \<^verbatim>\<open>members\<close>.
\<close>

record workspaceWithRelations = workspace +
  trainer :: "user option"
  members :: "workspaceMember list"

definition workspaceRelations :: "database \<Rightarrow> workspace \<Rightarrow> workspaceWithRelations" where
  "workspaceRelations db w =
     \<lparr>w_id = w_id w, w_trainerUserId = w_trainerUserId w, w_inviteToken = w_inviteToken w,
      w_businessName = w_businessName w, w_bio = w_bio w, w_createdAt = w_createdAt w,
      trainer = getUser db (w_trainerUserId w), members = getWorkspaceMembers db (w_id w)\<rparr>"

definition getWorkspace :: "database \<Rightarrow> ident \<Rightarrow> workspaceWithRelations option" where
  "getWorkspace db rowId =
     map_option (workspaceRelations db) (find (\<lambda>w. w_id w = rowId) (workspaces db))"

definition getWorkspaceByToken :: "database \<Rightarrow> string \<Rightarrow> workspaceWithRelations option" where
  "getWorkspaceByToken db token =
     map_option (workspaceRelations db) (find (\<lambda>w. w_inviteToken w = token) (workspaces db))"

definition getWorkspaceByTrainer :: "database \<Rightarrow> ident \<Rightarrow> workspaceWithRelations option" where
  "getWorkspaceByTrainer db trainerId =
     map_option (workspaceRelations db) (find (\<lambda>w. w_trainerUserId w = trainerId) (workspaces db))"

text \<open>
  \<^verbatim>\<open>getSubmission\<close> loads the comments newest first.
\<close>

definition getSubmission :: "database \<Rightarrow> ident \<Rightarrow> homeworkSubmissionWithRelations option" where
  "getSubmission db rowId =
     map_option (\<lambda>s. (withRelations db s)\<lparr>comments := orderByDesc c_createdAt (commentsOf db (s_id s))\<rparr>)
       (find (\<lambda>s. s_id s = rowId) (homeworkSubmissions db))"

text \<open>
  Updates take a \<^verbatim>\<open>Partial<Pick<...>>\<close> object: a key that is absent (or
  \<^verbatim>\<open>undefined\<close>) leaves the column alone, so each column of an update is an
  \<open>option\<close> of the new value. An \<^verbatim>\<open>update ... where id = ...\<close> rewrites every
  matching row. The handlers below ignore the row an update returns, so the model
  returns the new database only. \<open>updateUser\<close>, \<open>updateWorkspace\<close> and
  \<open>updateTask\<close> are the effect of the statement once PostgreSQL has accepted its
  parameters; a handler that writes text taken from the request sends the statement
  through \<open>sent\<close> with the texts of the update (\<open>userUpdateTexts\<close>,
  \<open>workspaceUpdateTexts\<close>).
\<close>

record userUpdates =
  up_firstName :: "string option option"
  up_lastName :: "string option option"
  up_profileImageUrl :: "string option option"
  up_role :: "string option option"
  up_onboardingComplete :: "bool option"

definition setColumn :: "'v option \<Rightarrow> 'v \<Rightarrow> 'v" where
  "setColumn update old = (case update of None \<Rightarrow> old | Some v \<Rightarrow> v)"

definition updateUser :: "database \<Rightarrow> timestamp \<Rightarrow> ident \<Rightarrow> userUpdates \<Rightarrow> database" where
  "updateUser db now rowId updates =
     db\<lparr>users := map (\<lambda>u. if u_id u = rowId
                          then u\<lparr>u_firstName := setColumn (up_firstName updates) (u_firstName u),
                                 u_lastName := setColumn (up_lastName updates) (u_lastName u),
                                 u_profileImageUrl := setColumn (up_profileImageUrl updates) (u_profileImageUrl u),
                                 u_role := setColumn (up_role updates) (u_role u),
                                 u_onboardingComplete := setColumn (up_onboardingComplete updates) (u_onboardingComplete u),
                                 u_updatedAt := now\<rparr>
                          else u) (users db)\<rparr>"

definition userUpdateTexts :: "userUpdates \<Rightarrow> string list" where
  "userUpdateTexts updates =
     concat (map (\<lambda>column. case column of None \<Rightarrow> [] | Some v \<Rightarrow> textOf v)
               [up_firstName updates, up_lastName updates, up_profileImageUrl updates,
                up_role updates])"

record workspaceUpdates =
  up_businessName :: "string option option"
  up_bio :: "string option option"

definition updateWorkspace :: "database \<Rightarrow> ident \<Rightarrow> workspaceUpdates \<Rightarrow> database" where
  "updateWorkspace db rowId updates =
     db\<lparr>workspaces := map (\<lambda>w. if w_id w = rowId
                               then w\<lparr>w_businessName := setColumn (up_businessName updates) (w_businessName w),
                                      w_bio := setColumn (up_bio updates) (w_bio w)\<rparr>
                               else w) (workspaces db)\<rparr>"

definition workspaceUpdateTexts :: "workspaceUpdates \<Rightarrow> string list" where
  "workspaceUpdateTexts updates =
     concat (map (\<lambda>column. case column of None \<Rightarrow> [] | Some v \<Rightarrow> textOf v)
               [up_businessName updates, up_bio updates])"

record taskUpdates =
  up_title :: "string option"
  up_instructions :: "string option"
  up_frequency :: "string option"
  up_expectedDurationMins :: "int option option"
  up_isActive :: "bool option"
  up_preferredDays :: "string list option option"

definition updateTask :: "database \<Rightarrow> ident \<Rightarrow> taskUpdates \<Rightarrow> database" where
  "updateTask db rowId updates =
     db\<lparr>homeworkTasks := map (\<lambda>t. if t_id t = rowId
                                  then t\<lparr>t_title := setColumn (up_title updates) (t_title t),
                                         t_instructions := setColumn (up_instructions updates) (t_instructions t),
                                         t_frequency := setColumn (up_frequency updates) (t_frequency t),
                                         t_expectedDurationMins := setColumn (up_expectedDurationMins updates) (t_expectedDurationMins t),
                                         t_isActive := setColumn (up_isActive updates) (t_isActive t),
                                         t_preferredDays := setColumn (up_preferredDays updates) (t_preferredDays t)\<rparr>
                                  else t) (homeworkTasks db)\<rparr>"

text \<open>
  Inserts. The database fills \<^verbatim>\<open>id\<close> (\<^verbatim>\<open>gen_random_uuid()\<close>) and the
  \<^verbatim>\<open>defaultNow()\<close> columns; the generated id and the time are parameters.
  PostgreSQL refuses the statement when one of its texts contains NUL, and the
  schema's constraints decide whether the row goes in: the primary key, the
  \<^verbatim>\<open>unique()\<close> invite token, the \<^verbatim>\<open>references\<close> and the \<^verbatim>\<open>notNull\<close> columns
  that a request can leave out. Either way the driver throws. An id that a row
  references is checked by the foreign key (no stored id contains NUL, so an id with
  NUL is refused there as well). The length limits of the \<^verbatim>\<open>varchar\<close> columns are
  not modelled.
\<close>

definition createWorkspace ::
  "database \<Rightarrow> timestamp \<Rightarrow> ident \<Rightarrow> ident \<Rightarrow> string \<Rightarrow> string option \<Rightarrow> string option
     \<Rightarrow> dbError + database \<times> workspace" where
  "createWorkspace db now newId trainerUserId inviteToken businessName bio =
     (if \<not> list_all pgText (inviteToken # textOf businessName @ textOf bio) then Inl InvalidText
      else if newId \<in> set (map w_id (workspaces db)) then Inl UniqueViolation
      else if inviteToken \<in> set (map w_inviteToken (workspaces db)) then Inl UniqueViolation
      else if trainerUserId \<notin> set (map u_id (users db)) then Inl ForeignKeyViolation
      else
        (let workspace = \<lparr>w_id = newId, w_trainerUserId = trainerUserId, w_inviteToken = inviteToken,
                          w_businessName = businessName, w_bio = bio, w_createdAt = now\<rparr>
         in Inr (db\<lparr>workspaces := workspaces db @ [workspace]\<rparr>, workspace)))"

definition addWorkspaceMember ::
  "database \<Rightarrow> timestamp \<Rightarrow> ident \<Rightarrow> ident \<Rightarrow> ident \<Rightarrow> string \<Rightarrow> dbError + database \<times> workspaceMember" where
  "addWorkspaceMember db now newId workspaceId userId role =
     (if newId \<in> set (map m_id (workspaceMembers db)) then Inl UniqueViolation
      else if workspaceId \<notin> set (map w_id (workspaces db)) then Inl ForeignKeyViolation
      else if userId \<notin> set (map u_id (users db)) then Inl ForeignKeyViolation
      else
        (let member = \<lparr>m_id = newId, m_workspaceId = workspaceId, m_userId = userId,
                       m_role = role, m_createdAt = now\<rparr>
         in Inr (db\<lparr>workspaceMembers := workspaceMembers db @ [member]\<rparr>, member)))"

definition createSubmission ::
  "database \<Rightarrow> timestamp \<Rightarrow> ident \<Rightarrow> ident \<Rightarrow> ident \<Rightarrow> string option \<Rightarrow> string
     \<Rightarrow> dbError + database \<times> homeworkSubmission" where
  "createSubmission db now newId taskId submittedByUserId note status =
     (if \<not> list_all pgText (status # textOf note) then Inl InvalidText
      else if newId \<in> set (map s_id (homeworkSubmissions db)) then Inl UniqueViolation
      else if taskId \<notin> set (map t_id (homeworkTasks db)) then Inl ForeignKeyViolation
      else if submittedByUserId \<notin> set (map u_id (users db)) then Inl ForeignKeyViolation
      else
        (let submission = \<lparr>s_id = newId, s_taskId = taskId, s_submittedByUserId = submittedByUserId,
                           s_note = note, s_status = status, s_submittedAt = now, s_createdAt = now\<rparr>
         in Inr (db\<lparr>homeworkSubmissions := homeworkSubmissions db @ [submission]\<rparr>, submission)))"

definition createSubmissionMedia ::
  "database \<Rightarrow> timestamp \<Rightarrow> ident \<Rightarrow> ident \<Rightarrow> string option \<Rightarrow> string option \<Rightarrow> string option
     \<Rightarrow> dbError + database \<times> submissionMedia" where
  "createSubmissionMedia db now newId submissionId mediaType filePath fileName =
     (case (mediaType, filePath) of
        (Some mediaType', Some filePath') \<Rightarrow>
          if \<not> list_all pgText (mediaType' # filePath' # textOf fileName) then Inl InvalidText
          else if newId \<in> set (map sm_id (submissionMediaRows db)) then Inl UniqueViolation
          else if submissionId \<notin> set (map s_id (homeworkSubmissions db)) then Inl ForeignKeyViolation
          else
            (let media = \<lparr>sm_id = newId, sm_submissionId = submissionId, sm_mediaType = mediaType',
                          sm_filePath = filePath', sm_fileName = fileName, sm_createdAt = now\<rparr>
             in Inr (db\<lparr>submissionMediaRows := submissionMediaRows db @ [media]\<rparr>, media))
      | _ \<Rightarrow> Inl NotNullViolation)"

section \<open>HTTP layer (server/routes.ts)\<close>

subsection \<open>Requests, responses and the values a handler gets from outside\<close>

text \<open>
  A JSON value of a request body; \<open>JUndefined\<close> is what reading a missing key gives.
\<close>

datatype json =
  JUndefined | JNull | JBool bool | JNumber int | JString string
  | JArray "json list" | JObject "(string \<times> json) list"

text \<open>
  The bodies the modelled handlers send, one constructor per object shape:
  \<^verbatim>\<open>{message}\<close>, \<^verbatim>\<open>{workspaceId, alreadyMember?}\<close>,
  \<^verbatim>\<open>{workspaceId, trainerName, businessName}\<close>, and a row or \<^verbatim>\<open>undefined\<close>.
\<close>

datatype body =
  Message string
  | JoinBody ident "bool option"
  | ValidateBody ident string "string option"
  | UserBody "user option"
  | WorkspaceBody "workspaceWithRelations option"
  | TaskBody "homeworkTask option"
  | SubmissionBody "homeworkSubmissionWithRelations option"

record response =
  res_status :: nat
  res_body :: body

text \<open>\<^verbatim>\<open>res.status(code).json(b)\<close>, and \<^verbatim>\<open>res.json(b)\<close> with Express's default status.\<close>

definition status_json :: "nat \<Rightarrow> body \<Rightarrow> response" where
  "status_json code b = \<lparr>res_status = code, res_body = b\<rparr>"

definition res_json :: "body \<Rightarrow> response" where
  "res_json b = status_json 200 b"

text \<open>
  What a request reads from outside the database: the clock, the ids that
  \<^verbatim>\<open>gen_random_uuid()\<close> returns for the rows it inserts (in order), and the string
  that \<^verbatim>\<open>crypto.randomBytes(24).toString("base64url")\<close> returns. The clock is read
  once per request: the model does not tell the server's \<^verbatim>\<open>new Date()\<close> from the
  database's \<^verbatim>\<open>now()\<close>, nor the statements of one request apart in time, and no
  statement below compares the times that two statements wrote.
\<close>

record runtime =
  rt_now :: timestamp
  rt_uuid :: "nat \<Rightarrow> ident"
  rt_randomToken :: string

text \<open>
  Modelled from the spec: \<^verbatim>\<open>isAuthenticated\<close> is defined in
  \<^verbatim>\<open>server/replit_integrations/auth\<close>, which is not among the sources. The
  specification's error taxonomy says a request without a session is answered with
  HTTP 401. A request carries the \<^verbatim>\<open>sub\<close> claim of its session, if it has one.
\<close>

definition unauthenticated :: response where
  "unauthenticated = status_json 401 (Message ''Unauthorized'')"

text \<open>\<^verbatim>\<open>req.user?.claims?.sub || null\<close>: an empty \<^verbatim>\<open>sub\<close> is falsy.\<close>

definition getUserId :: "string option \<Rightarrow> ident option" where
  "getUserId session = (case session of None \<Rightarrow> None | Some sub \<Rightarrow> if sub = [] then None else Some sub)"

definition getUserWithRole :: "database \<Rightarrow> string option \<Rightarrow> user option" where
  "getUserWithRole db session =
     (case getUserId session of None \<Rightarrow> None | Some userId \<Rightarrow> getUser db userId)"

text \<open>\<^verbatim>\<open>x || null\<close> and \<^verbatim>\<open>x || ""\<close> on an optional string: the empty string is falsy.\<close>

definition orNull :: "string option \<Rightarrow> string option" where
  "orNull x = (case x of None \<Rightarrow> None | Some s \<Rightarrow> if s = [] then None else Some s)"

definition orEmpty :: "string option \<Rightarrow> string" where
  "orEmpty x = (case x of None \<Rightarrow> [] | Some s \<Rightarrow> s)"

text \<open>
  \<^verbatim>\<open>String.prototype.trim\<close> strips the white space of Unicode and the line
  terminators at both ends. It belongs to the JavaScript runtime; the handlers that
  call it take it as the parameter \<open>trim\<close>. \<^verbatim>\<open>s.split(sep)\<close> with a
  one-character separator (the empty string splits into one empty part) and
  \<^verbatim>\<open>parts.join(sep)\<close> are defined on the characters.
\<close>

fun split :: "char \<Rightarrow> string \<Rightarrow> string list" where
  "split sep [] = [[]]"
| "split sep (c # cs) =
     (if c = sep then [] # split sep cs
      else (case split sep cs of [] \<Rightarrow> [[c]] | part # parts \<Rightarrow> (c # part) # parts))"

fun join :: "string \<Rightarrow> string list \<Rightarrow> string" where
  "join sep [] = []"
| "join sep [part] = part"
| "join sep (part # parts) = part @ sep @ join sep parts"

subsection \<open>GET /api/workspaces/validate/:token\<close>

text \<open>
  The token is a segment of the URL, any string. The lookup compares it with the
  stored tokens; when PostgreSQL refuses it the lookup throws and the \<^verbatim>\<open>catch\<close>
  block answers 500.
\<close>

definition getValidateToken :: "(string \<Rightarrow> string) \<Rightarrow> database \<Rightarrow> string \<Rightarrow> response" where
  "getValidateToken trim db token =
     (case sent [token] (getWorkspaceByToken db token) of
        Inl _ \<Rightarrow> status_json 500 (Message ''Failed to validate invite'')
      | Inr None \<Rightarrow> status_json 404 (Message ''Invalid invite link'')
      | Inr (Some workspace) \<Rightarrow>
          res_json (ValidateBody (w_id workspace)
            (trim (orEmpty (case trainer workspace of None \<Rightarrow> None | Some t \<Rightarrow> u_firstName t)
                   @ '' ''
                   @ orEmpty (case trainer workspace of None \<Rightarrow> None | Some t \<Rightarrow> u_lastName t)))
            (w_businessName workspace)))"

subsection \<open>POST /api/workspaces/join\<close>

text \<open>
  The body's \<^verbatim>\<open>token\<close> is an optional string: a missing key, \<^verbatim>\<open>null\<close> and the
  empty string are the falsy values. The \<^verbatim>\<open>catch\<close> block answers a thrown insert
  with 500; what was written before the throw stays written. The handler writes
  constants and ids only. Its lookup is modelled for the tokens PostgreSQL accepts as
  text: a token with a NUL character, which matches no workspace, is answered here
  like every other such token and writes nothing (the handler's lookup throws on it and
  the \<^verbatim>\<open>catch\<close> block answers, writing nothing either). The statements about
  the handler below are about requests whose token matched a workspace or that were
  answered with a 2xx status, and about what a request writes.
\<close>

definition ownerUpdates :: userUpdates where
  "ownerUpdates = \<lparr>up_firstName = None, up_lastName = None, up_profileImageUrl = None,
                    up_role = Some (Some ''OWNER''), up_onboardingComplete = Some False\<rparr>"

definition postJoin :: "runtime \<Rightarrow> database \<Rightarrow> string option \<Rightarrow> string option \<Rightarrow> database \<times> response" where
  "postJoin rt db session token =
     (case session of
        None \<Rightarrow> (db, unauthenticated)
      | Some _ \<Rightarrow>
     (case getUserId session of
        None \<Rightarrow> (db, status_json 401 (Message ''Not authenticated''))
      | Some userId \<Rightarrow>
     (case orNull token of
        None \<Rightarrow> (db, status_json 400 (Message ''Invite token required''))
      | Some token' \<Rightarrow>
     (case getWorkspaceByToken db token' of
        None \<Rightarrow> (db, status_json 404 (Message ''Invalid invite link''))
      | Some workspace \<Rightarrow>
          if w_trainerUserId workspace = userId
          then (db, status_json 400 (Message ''You cannot join your own workspace as an owner''))
          else
            (let existingMembers = getWorkspaceMembers db (w_id workspace);
                 alreadyMember = list_ex (\<lambda>m. m_userId m = userId) existingMembers
             in if alreadyMember
                then (updateUser db (rt_now rt) userId ownerUpdates,
                      res_json (JoinBody (w_id workspace) (Some True)))
                else
                  (case addWorkspaceMember db (rt_now rt) (rt_uuid rt 0) (w_id workspace) userId ''OWNER'' of
                     Inl _ \<Rightarrow> (db, status_json 500 (Message ''Failed to join workspace''))
                   | Inr (db', _) \<Rightarrow>
                       (updateUser db' (rt_now rt) userId ownerUpdates,
                        status_json 201 (JoinBody (w_id workspace) None))))))))"

subsection \<open>POST /api/workspaces/create\<close>

definition trainerRole :: userUpdates where
  "trainerRole = \<lparr>up_firstName = None, up_lastName = None, up_profileImageUrl = None,
                   up_role = Some (Some ''TRAINER''), up_onboardingComplete = None\<rparr>"

definition postCreateWorkspace :: "runtime \<Rightarrow> database \<Rightarrow> string option \<Rightarrow> database \<times> response" where
  "postCreateWorkspace rt db session =
     (case session of
        None \<Rightarrow> (db, unauthenticated)
      | Some _ \<Rightarrow>
     (case getUserId session of
        None \<Rightarrow> (db, status_json 401 (Message ''Not authenticated''))
      | Some userId \<Rightarrow>
     (case getWorkspaceByTrainer db userId of
        Some existing \<Rightarrow> (db, res_json (WorkspaceBody (Some existing)))
      | None \<Rightarrow>
          (case createWorkspace db (rt_now rt) (rt_uuid rt 0) userId (rt_randomToken rt) None None of
             Inl _ \<Rightarrow> (db, status_json 500 (Message ''Failed to create workspace''))
           | Inr (db1, workspace) \<Rightarrow>
               (case addWorkspaceMember db1 (rt_now rt) (rt_uuid rt 1) (w_id workspace) userId ''TRAINER'' of
                  Inl _ \<Rightarrow> (db1, status_json 500 (Message ''Failed to create workspace''))
                | Inr (db2, _) \<Rightarrow>
                    (let db3 = updateUser db2 (rt_now rt) userId trainerRole
                     in (db3, status_json 201 (WorkspaceBody (getWorkspace db3 (w_id workspace))))))))))"

subsection \<open>POST /api/workspaces/trainer-profile\<close>

text \<open>
  The body's \<^verbatim>\<open>displayName\<close>, \<^verbatim>\<open>businessName\<close>, \<^verbatim>\<open>bio\<close> and
  \<^verbatim>\<open>profilePhoto\<close> are optional strings. \<^verbatim>\<open>nameParts[0]\<close> of an empty array
  would be \<^verbatim>\<open>undefined\<close>, a key that the update skips; \<^verbatim>\<open>profilePhoto || undefined\<close>
  skips the photo column when no photo is given. The names, the photo, the business
  name and the bio are text from the request: the statements that write them throw
  when PostgreSQL refuses one of them, and the \<^verbatim>\<open>catch\<close> block answers 500 with
  the earlier writes of the request kept.
\<close>

definition trainerUpdates :: "string list \<Rightarrow> string option \<Rightarrow> userUpdates" where
  "trainerUpdates nameParts profilePhoto =
     \<lparr>up_firstName = (case nameParts of [] \<Rightarrow> None | firstName # _ \<Rightarrow> Some (Some firstName)),
      up_lastName = Some (orNull (Some (join '' '' (drop 1 nameParts)))),
      up_profileImageUrl = (case orNull profilePhoto of None \<Rightarrow> None | Some photo \<Rightarrow> Some (Some photo)),
      up_role = Some (Some ''TRAINER''),
      up_onboardingComplete = Some True\<rparr>"

definition postTrainerProfile ::
  "(string \<Rightarrow> string) \<Rightarrow> runtime \<Rightarrow> database \<Rightarrow> string option \<Rightarrow> string option
     \<Rightarrow> string option \<Rightarrow> string option \<Rightarrow> string option \<Rightarrow> database \<times> response" where
  "postTrainerProfile trim rt db session displayName businessName bio profilePhoto =
     (case session of
        None \<Rightarrow> (db, unauthenticated)
      | Some _ \<Rightarrow>
     (case getUserId session of
        None \<Rightarrow> (db, status_json 401 (Message ''Not authenticated''))
      | Some userId \<Rightarrow>
     (case orNull displayName of
        None \<Rightarrow> (db, status_json 400 (Message ''Display name is required''))
      | Some displayName' \<Rightarrow>
          if length (trim displayName') = 0
          then (db, status_json 400 (Message ''Display name is required''))
          else
            (let nameParts = split (CHR '' '') (trim displayName');
                 updates = trainerUpdates nameParts profilePhoto
             in case sent (userUpdateTexts updates) (updateUser db (rt_now rt) userId updates) of
                  Inl _ \<Rightarrow> (db, status_json 500 (Message ''Failed to update profile''))
                | Inr db1 \<Rightarrow>
             (case getWorkspaceByTrainer db1 userId of
                  None \<Rightarrow>
                    (case createWorkspace db1 (rt_now rt) (rt_uuid rt 0) userId (rt_randomToken rt)
                            (orNull businessName) (orNull bio) of
                       Inl _ \<Rightarrow> (db1, status_json 500 (Message ''Failed to update profile''))
                     | Inr (db2, workspace) \<Rightarrow>
                         (case addWorkspaceMember db2 (rt_now rt) (rt_uuid rt 1) (w_id workspace) userId ''TRAINER'' of
                            Inl _ \<Rightarrow> (db2, status_json 500 (Message ''Failed to update profile''))
                          | Inr (db3, _) \<Rightarrow> (db3, res_json (UserBody (getUser db3 userId)))))
                | Some workspace \<Rightarrow>
                    (let workspaceUpdate =
                           \<lparr>up_businessName = Some (orNull businessName), up_bio = Some (orNull bio)\<rparr>
                     in case sent (workspaceUpdateTexts workspaceUpdate)
                               (updateWorkspace db1 (w_id workspace) workspaceUpdate) of
                          Inl _ \<Rightarrow> (db1, status_json 500 (Message ''Failed to update profile''))
                        | Inr db2 \<Rightarrow> (db2, res_json (UserBody (getUser db2 userId)))))))))"
subsection \<open>PATCH /api/tasks/:id/preferred-days\<close>

definition validDays :: "string list" where
  "validDays = [''Mon'', ''Tue'', ''Wed'', ''Thu'', ''Fri'', ''Sat'', ''Sun'']"

text \<open>
  \<^verbatim>\<open>Array.isArray\<close>, \<^verbatim>\<open>validDays.includes(d)\<close> (only a string can equal a string)
  and the truthiness of a JSON value.
\<close>

fun isArray :: "json \<Rightarrow> bool" where
  "isArray (JArray _) = True"
| "isArray _ = False"

fun elements :: "json \<Rightarrow> json list" where
  "elements (JArray ds) = ds"
| "elements _ = []"

fun arrayIncludes :: "string list \<Rightarrow> json \<Rightarrow> bool" where
  "arrayIncludes days (JString d) = (d \<in> set days)"
| "arrayIncludes days _ = False"

fun truthy :: "json \<Rightarrow> bool" where
  "truthy JUndefined = False"
| "truthy JNull = False"
| "truthy (JBool b) = b"
| "truthy (JNumber n) = (n \<noteq> 0)"
| "truthy (JString s) = (s \<noteq> [])"
| "truthy (JArray _) = True"
| "truthy (JObject _) = True"

text \<open>The strings of an array that passed the check, as the text array column stores them.\<close>

fun dayStrings :: "json list \<Rightarrow> string list" where
  "dayStrings [] = []"
| "dayStrings (JString d # ds) = d # dayStrings ds"
| "dayStrings (_ # ds) = dayStrings ds"

definition preferredDaysUpdate :: "string list option \<Rightarrow> taskUpdates" where
  "preferredDaysUpdate days =
     \<lparr>up_title = None, up_instructions = None, up_frequency = None, up_expectedDurationMins = None,
      up_isActive = None, up_preferredDays = Some days\<rparr>"

definition patchPreferredDays ::
  "database \<Rightarrow> string option \<Rightarrow> ident \<Rightarrow> json \<Rightarrow> database \<times> response" where
  "patchPreferredDays db session taskId preferredDays =
     (case session of
        None \<Rightarrow> (db, unauthenticated)
      | Some _ \<Rightarrow>
     (case getUserWithRole db session of
        None \<Rightarrow> (db, status_json 401 (Message ''Unauthorized''))
      | Some user \<Rightarrow>
     (case getTask db taskId of
        None \<Rightarrow> (db, status_json 404 (Message ''Task not found''))
      | Some task \<Rightarrow>
     (case getPet db (t_petId task) of
        None \<Rightarrow> (db, status_json 404 (Message ''Pet not found''))
      | Some pet \<Rightarrow>
          if p_ownerId pet \<noteq> u_id user \<and> u_role user \<noteq> Some ''ADMIN''
          then (db, status_json 403 (Message ''Only the pet owner can set preferred days''))
          else if preferredDays \<noteq> JNull
                  \<and> (\<not> isArray preferredDays
                      \<or> \<not> list_all (\<lambda>d. arrayIncludes validDays d) (elements preferredDays))
          then (db, status_json 400 (Message ''Invalid preferred days''))
          else
            (let db' = updateTask db taskId
                         (preferredDaysUpdate
                            (if truthy preferredDays \<and> length (elements preferredDays) > 0
                             then Some (dayStrings (elements preferredDays)) else None))
             in (db', res_json (TaskBody (getTask db' taskId))))))))"

subsection \<open>POST /api/submissions\<close>

text \<open>
  An element of the body's \<^verbatim>\<open>media\<close> array; a key the client left out reads as
  \<^verbatim>\<open>undefined\<close>. \<open>None\<close> for the array itself stands for a \<^verbatim>\<open>media\<close> that is
  missing or not an array.
\<close>

record mediaItem =
  mi_mediaType :: "string option"
  mi_filePath :: "string option"
  mi_fileName :: "string option"

text \<open>
  The \<^verbatim>\<open>for ... of\<close> loop over \<^verbatim>\<open>media\<close>: one insert per element, the \<open>k\<close>-th
  generated id for the \<open>k\<close>-th insert of the request. The loop stops at the first
  insert that throws; the rows inserted before it stay.
\<close>

fun createMediaRows ::
  "runtime \<Rightarrow> nat \<Rightarrow> database \<Rightarrow> ident \<Rightarrow> mediaItem list \<Rightarrow> database \<times> dbError option" where
  "createMediaRows rt k db submissionId [] = (db, None)"
| "createMediaRows rt k db submissionId (item # items) =
     (case createSubmissionMedia db (rt_now rt) (rt_uuid rt k) submissionId
             (mi_mediaType item) (mi_filePath item) (orNull (mi_fileName item)) of
        Inl e \<Rightarrow> (db, Some e)
      | Inr (db', _) \<Rightarrow> createMediaRows rt (Suc k) db' submissionId items)"

text \<open>
  \<^verbatim>\<open>requireOwner\<close> runs after \<^verbatim>\<open>isAuthenticated\<close> and before the handler; it
  loads the user and lets OWNER and ADMIN through. The handler's \<^verbatim>\<open>note\<close> and the
  fields of its media items are text from the request; \<open>createSubmission\<close> and
  \<open>createSubmissionMedia\<close> throw when PostgreSQL refuses them, and the
  \<^verbatim>\<open>catch\<close> block answers 500.
\<close>

definition requireOwner :: "database \<Rightarrow> string option \<Rightarrow> response + user" where
  "requireOwner db session =
     (case getUserWithRole db session of
        None \<Rightarrow> Inl (status_json 403 (Message ''Owner role required''))
      | Some user \<Rightarrow>
          if u_role user = Some ''OWNER'' \<or> u_role user = Some ''ADMIN'' then Inr user
          else Inl (status_json 403 (Message ''Owner role required'')))"

definition postSubmissions ::
  "runtime \<Rightarrow> database \<Rightarrow> string option \<Rightarrow> ident \<Rightarrow> string option \<Rightarrow> mediaItem list option
     \<Rightarrow> database \<times> response" where
  "postSubmissions rt db session taskId note media =
     (case session of
        None \<Rightarrow> (db, unauthenticated)
      | Some _ \<Rightarrow>
     (case requireOwner db session of
        Inl refused \<Rightarrow> (db, refused)
      | Inr user \<Rightarrow>
     (case getTask db taskId of
        None \<Rightarrow> (db, status_json 404 (Message ''Task not found''))
      | Some task \<Rightarrow>
          if \<not> t_isActive task
          then (db, status_json 400
                  (Message ''This task has been closed and no longer accepts submissions''))
          else
            (case getPet db (t_petId task) of
               None \<Rightarrow> (db, status_json 403 (Message ''Access denied''))
             | Some pet \<Rightarrow>
                 if p_ownerId pet \<noteq> u_id user
                 then (db, status_json 403 (Message ''Access denied''))
                 else
                   (case createSubmission db (rt_now rt) (rt_uuid rt 0) taskId (u_id user)
                           (orNull note) ''COMPLETED'' of
                      Inl _ \<Rightarrow> (db, status_json 500 (Message ''Failed to create submission''))
                    | Inr (db1, submission) \<Rightarrow>
                        (case createMediaRows rt 1 db1 (s_id submission)
                                (case media of None \<Rightarrow> [] | Some items \<Rightarrow> items) of
                           (db2, Some _) \<Rightarrow>
                             (db2, status_json 500 (Message ''Failed to create submission''))
                         | (db2, None) \<Rightarrow>
                             (db2, status_json 201
                                (SubmissionBody (getSubmission db2 (s_id submission))))))))))"

section \<open>The library functions on ASCII strings and in the UTC zone\<close>

text \<open>
  Instances of the library functions for the examples. On a string of ASCII characters
  \<^verbatim>\<open>String.prototype.toLowerCase\<close> maps the letters A to Z to a to z and
  \<^verbatim>\<open>String.prototype.trim\<close> strips tab, line feed, vertical tab, form feed,
  carriage return and space at both ends: \<open>asciiToLowerCase\<close> and
  \<open>asciiTrim\<close> do that (and leave every other byte alone). In a browser whose time
  zone is UTC, \<^verbatim>\<open>getDay\<close> and \<^verbatim>\<open>isSameDay\<close> of date-fns count days of
  86400000 milliseconds from the epoch, 1 January 1970, a Thursday (day 4 counting
  from Sunday): \<open>utcGetDay\<close> and \<open>utcIsSameDay\<close>.
\<close>

definition lowerCaseOf :: "char \<Rightarrow> char" where
  "lowerCaseOf c =
     (case map_of (zip ''ABCDEFGHIJKLMNOPQRSTUVWXYZ'' ''abcdefghijklmnopqrstuvwxyz'') c of
        None \<Rightarrow> c
      | Some l \<Rightarrow> l)"

definition asciiToLowerCase :: "string \<Rightarrow> string" where
  "asciiToLowerCase s = map lowerCaseOf s"

definition isWhiteSpace :: "char \<Rightarrow> bool" where
  "isWhiteSpace c = ((of_char c :: nat) \<in> {9, 10, 11, 12, 13, 32})"

definition asciiTrim :: "string \<Rightarrow> string" where
  "asciiTrim s = rev (dropWhile isWhiteSpace (rev (dropWhile isWhiteSpace s)))"

definition msPerDay :: int where
  "msPerDay = 86400000"

definition utcDayNumber :: "timestamp \<Rightarrow> int" where
  "utcDayNumber date = date div msPerDay"

definition utcGetDay :: "timestamp \<Rightarrow> nat" where
  "utcGetDay date = nat ((utcDayNumber date + 4) mod 7)"

definition utcIsSameDay :: "timestamp \<Rightarrow> timestamp \<Rightarrow> bool" where
  "utcIsSameDay dateLeft dateRight = (utcDayNumber dateLeft = utcDayNumber dateRight)"

section \<open>The specification's vocabulary for the handlers\<close>

text \<open>
  The specification names the join errors \<open>InvalidToken\<close> and \<open>SelfJoin\<close> and
  the success result \<open>{alreadyMember: true}\<close>; these are the responses the handler
  sends for them. A response is successful when its status is 2xx, and a 400-class
  error when its status is 4xx.
\<close>

definition InvalidToken :: response where
  "InvalidToken = status_json 404 (Message ''Invalid invite link'')"

definition SelfJoin :: response where
  "SelfJoin = status_json 400 (Message ''You cannot join your own workspace as an owner'')"

definition alreadyMemberOf :: "ident \<Rightarrow> response" where
  "alreadyMemberOf workspaceId = res_json (JoinBody workspaceId (Some True))"

definition successful :: "response \<Rightarrow> bool" where
  "successful res = (200 \<le> res_status res \<and> res_status res < 300)"

definition clientError :: "response \<Rightarrow> bool" where
  "clientError res = (400 \<le> res_status res \<and> res_status res < 500)"

text \<open>The number of membership rows of a (workspace, user) pair.\<close>

definition membershipCount :: "database \<Rightarrow> ident \<Rightarrow> ident \<Rightarrow> nat" where
  "membershipCount db workspaceId userId =
     length (filter (\<lambda>m. m_workspaceId m = workspaceId \<and> m_userId m = userId) (workspaceMembers db))"

text \<open>
  A trainer's display name as \<^verbatim>\<open>validate\<close> reports it: first and last name with a
  space between, trimmed by the runtime's \<open>trim\<close>; and the workspaces a trainer
  owns.
\<close>

definition trainerDisplayName :: "(string \<Rightarrow> string) \<Rightarrow> database \<Rightarrow> workspace \<Rightarrow> string" where
  "trainerDisplayName trim db w =
     (case getUser db (w_trainerUserId w) of
        None \<Rightarrow> trim '' ''
      | Some t \<Rightarrow> trim (orEmpty (u_firstName t) @ '' '' @ orEmpty (u_lastName t)))"

definition workspacesOf :: "database \<Rightarrow> ident \<Rightarrow> workspace list" where
  "workspacesOf db trainerId = filter (\<lambda>w. w_trainerUserId w = trainerId) (workspaces db)"

text \<open>
  The state of the workspace table that the handlers keep up: invite tokens are unique
  (the schema's \<open>unique()\<close>) and no trainer owns two workspaces.
\<close>

definition workspaceInvariant :: "database \<Rightarrow> bool" where
  "workspaceInvariant db =
     (distinct (map w_inviteToken (workspaces db)) \<and> distinct (map w_trainerUserId (workspaces db)))"

text \<open>
  The name split in the specification's words. \<open>firstToken\<close> is the part of the
  trimmed display name before its first space, \<open>remainder\<close> what follows that space;
  \<open>firstWhiteSpaceToken\<close> is the first token when any white space of ASCII (a tab,
  for one) separates tokens.
\<close>

definition firstToken :: "string \<Rightarrow> string" where
  "firstToken s = takeWhile (\<lambda>c. c \<noteq> CHR '' '') s"

definition remainder :: "string \<Rightarrow> string" where
  "remainder s = drop 1 (dropWhile (\<lambda>c. c \<noteq> CHR '' '') s)"


text \<open>
  The preferred-days values the specification accepts: \<^verbatim>\<open>null\<close>, or a list whose
  elements are all weekday abbreviations; and what is stored for an accepted value.
\<close>

fun acceptedPreferredDays :: "json \<Rightarrow> bool" where
  "acceptedPreferredDays JNull = True"
| "acceptedPreferredDays (JArray ds) =
     (\<forall>d \<in> set ds. \<exists>day \<in> {''Mon'', ''Tue'', ''Wed'', ''Thu'', ''Fri'', ''Sat'', ''Sun''}. d = JString day)"
| "acceptedPreferredDays _ = False"

fun storedPreferredDays :: "json \<Rightarrow> string list option" where
  "storedPreferredDays (JArray (d # ds)) = Some (dayStrings (d # ds))"
| "storedPreferredDays _ = None"

section \<open>Example data\<close>

text \<open>
  A small database in the shape the seed data and the workspace flow produce: trainer
  Sarah with her workspace, owner Emily who joined it, Emily's dog with one open and
  one closed task, one submission and one comment on it, and a newly signed-in user
  without a role. Times are milliseconds; \<open>demoMonday\<close> is Monday 5 January 1970,
  00:00 UTC.
\<close>

definition demoMonday :: timestamp where
  "demoMonday = 4 * 86400000"

definition sarah :: user where
  "sarah = \<lparr>u_id = ''u-sarah'', u_email = Some ''sarah.trainer@pawsync.demo'',
            u_firstName = Some ''Sarah'', u_lastName = Some ''Johnson'', u_profileImageUrl = None,
            u_role = Some ''TRAINER'', u_onboardingComplete = True, u_updatedAt = 0\<rparr>"

definition emily :: user where
  "emily = \<lparr>u_id = ''u-emily'', u_email = Some ''emily.owner@pawsync.demo'',
            u_firstName = Some ''Emily'', u_lastName = Some ''Parker'', u_profileImageUrl = None,
            u_role = Some ''OWNER'', u_onboardingComplete = True, u_updatedAt = 0\<rparr>"

definition newcomer :: user where
  "newcomer = \<lparr>u_id = ''u-new'', u_email = None, u_firstName = None, u_lastName = None,
               u_profileImageUrl = None, u_role = None, u_onboardingComplete = False,
               u_updatedAt = 0\<rparr>"

definition sarahWorkspace :: workspace where
  "sarahWorkspace = \<lparr>w_id = ''w-1'', w_trainerUserId = ''u-sarah'', w_inviteToken = ''tok-sarah'',
                     w_businessName = Some ''Happy Paws'', w_bio = None, w_createdAt = 0\<rparr>"

definition buddy :: pet where
  "buddy = \<lparr>p_id = ''p-buddy'', p_name = ''Buddy'', p_species = Some ''dog'', p_breed = None,
            p_age = None, p_ownerPhone = None, p_imageUrl = None, p_ownerId = ''u-emily'',
            p_trainerId = Some ''u-sarah'', p_workspaceId = Some ''w-1'', p_createdAt = 0\<rparr>"

definition sitTask :: homeworkTask where
  "sitTask = \<lparr>t_id = ''t-sit'', t_petId = ''p-buddy'', t_createdByTrainerId = ''u-sarah'',
              t_title = ''Sit'', t_instructions = ''Practice sit'', t_frequency = ''daily'',
              t_expectedDurationMins = Some 10, t_isActive = True, t_preferredDays = None,
              t_createdAt = 1000\<rparr>"

definition closedTask :: homeworkTask where
  "closedTask = \<lparr>t_id = ''t-closed'', t_petId = ''p-buddy'', t_createdByTrainerId = ''u-sarah'',
                 t_title = ''Leash'', t_instructions = ''Loose leash walking'', t_frequency = ''weekly'',
                 t_expectedDurationMins = None, t_isActive = False, t_preferredDays = None,
                 t_createdAt = 500\<rparr>"

definition walkTask :: homeworkTask where
  "walkTask = \<lparr>t_id = ''t-walk'', t_petId = ''p-buddy'', t_createdByTrainerId = ''u-sarah'',
               t_title = ''Walk'', t_instructions = ''Long walk'', t_frequency = ''Weekly'',
               t_expectedDurationMins = None, t_isActive = True, t_preferredDays = None,
               t_createdAt = 1500\<rparr>"

definition monWedTask :: homeworkTask where
  "monWedTask = \<lparr>t_id = ''t-recall'', t_petId = ''p-buddy'', t_createdByTrainerId = ''u-sarah'',
                 t_title = ''Recall'', t_instructions = ''Recall in the yard'', t_frequency = ''daily'',
                 t_expectedDurationMins = None, t_isActive = True,
                 t_preferredDays = Some [''Mon'', ''Wed''], t_createdAt = 1600\<rparr>"

definition sitSubmission :: homeworkSubmission where
  "sitSubmission = \<lparr>s_id = ''s-1'', s_taskId = ''t-sit'', s_submittedByUserId = ''u-emily'',
                    s_note = Some ''8 out of 10'', s_status = ''COMPLETED'', s_submittedAt = 2000,
                    s_createdAt = 2000\<rparr>"

definition sitComment :: trainerComment where
  "sitComment = \<lparr>c_id = ''c-1'', c_submissionId = ''s-1'', c_trainerId = ''u-sarah'',
                 c_comment = ''Great progress!'', c_createdAt = 3000\<rparr>"

definition demoDb :: database where
  "demoDb = \<lparr>users = [sarah, emily, newcomer],
             workspaces = [sarahWorkspace],
             workspaceMembers =
               [\<lparr>m_id = ''m-1'', m_workspaceId = ''w-1'', m_userId = ''u-sarah'', m_role = ''TRAINER'',
                 m_createdAt = 0\<rparr>,
                \<lparr>m_id = ''m-2'', m_workspaceId = ''w-1'', m_userId = ''u-emily'', m_role = ''OWNER'',
                 m_createdAt = 0\<rparr>],
             pets = [buddy],
             homeworkTasks = [closedTask, sitTask],
             homeworkSubmissions = [sitSubmission],
             submissionMediaRows = [],
             trainerComments = [sitComment]\<rparr>"

text \<open>
  The state right after two users signed in for the first time: no roles, no
  workspaces. \<open>trainerDb\<close> is what the trainer-profile handler makes of it when the
  first of them submits the profile "Sarah Johnson".
\<close>

definition signedUpDb :: database where
  "signedUpDb = \<lparr>users = [newcomer\<lparr>u_id := ''u-sarah''\<rparr>, newcomer],
                 workspaces = [], workspaceMembers = [], pets = [], homeworkTasks = [],
                 homeworkSubmissions = [], submissionMediaRows = [], trainerComments = []\<rparr>"

definition demoRuntime :: runtime where
  "demoRuntime = \<lparr>rt_now = 5000, rt_uuid = (\<lambda>k. ''uuid-'' @ replicate k (CHR ''x'')),
                  rt_randomToken = ''tok-fresh''\<rparr>"

definition laterRuntime :: runtime where
  "laterRuntime = \<lparr>rt_now = 6000, rt_uuid = (\<lambda>k. ''later-'' @ replicate k (CHR ''x'')),
                   rt_randomToken = ''tok-later''\<rparr>"

definition trainerDb :: database where
  "trainerDb = fst (postTrainerProfile asciiTrim demoRuntime signedUpDb (Some ''u-sarah'')
                      (Some ''Sarah Johnson'') (Some ''Happy Paws'') None None)"

text \<open>
  \<open>joinedDb\<close>: the newly signed-in user has redeemed Sarah's invite link once.
\<close>

definition joinedDb :: database where
  "joinedDb = fst (postJoin laterRuntime trainerDb (Some ''u-new'') (Some ''tok-fresh''))"

definition lastRuntime :: runtime where
  "lastRuntime = \<lparr>rt_now = 7000, rt_uuid = (\<lambda>k. ''last-'' @ replicate k (CHR ''x'')),
                  rt_randomToken = ''tok-last''\<rparr>"

section \<open>Timeline: proofs\<close>

lemma pushTasks_eq: "pushTasks acc tasks = acc @ map taskItem tasks"
  unfolding pushTasks_def by (induction tasks arbitrary: acc) simp_all

lemma push_comments_eq:
  "foldl (\<lambda>items' comment. items' @ [commentItem comment]) acc cs = acc @ map commentItem cs"
  by (induction cs arbitrary: acc) simp_all

lemma pushSubmissions_eq:
  "pushSubmissions acc subs =
     acc @ concat (map (\<lambda>s. submissionItem s # map commentItem (comments s)) subs)"
  unfolding pushSubmissions_def
  by (induction subs arbitrary: acc) (simp_all add: push_comments_eq)

lemma mset_insertSorted: "mset (insertSorted cmp a bs) = add_mset a (mset bs)"
  by (induction bs) simp_all

lemma mset_arraySort: "mset (arraySort cmp xs) = mset xs"
  unfolding arraySort_def by (induction xs) (simp_all add: mset_insertSorted)

lemma set_insertSorted: "set (insertSorted cmp a bs) = insert a (set bs)"
  by (induction bs) auto

lemma descending_insertSorted:
  "sorted_wrt (\<lambda>a b. ti_date b \<le> ti_date a) bs \<Longrightarrow>
   sorted_wrt (\<lambda>a b. ti_date b \<le> ti_date a) (insertSorted compareDates a bs)"
  by (induction bs) (auto simp: set_insertSorted compareDates_def)

lemma descending_arraySort:
  "sorted_wrt (\<lambda>a b. ti_date b \<le> ti_date a) (arraySort compareDates xs)"
  unfolding arraySort_def by (induction xs) (simp_all add: descending_insertSorted)

lemma mset_orderByDesc: "mset (orderByDesc col rows) = mset rows"
  by (simp add: orderByDesc_def)

lemma list_ex_eq_mem: "list_ex (\<lambda>i. a = i) xs = (a \<in> set xs)"
  by (auto simp: list_ex_iff)

lemma sent_accepted: "list_all pgText params \<Longrightarrow> sent params result = Inr result"
  by (simp add: sent_def)

lemma sent_refused: "\<not> list_all pgText params \<Longrightarrow> sent params result = Inl InvalidText"
  by (simp add: sent_def)

text \<open>What the two queries of \<open>getTimeline\<close> return, up to the order of the rows.\<close>

lemma getTasksByPet_rows:
  assumes "pgText petId"
  obtains tasks where "getTasksByPet db petId = Inr tasks"
    and "mset tasks = mset (petTaskRows db petId)"
  using assms by (simp add: getTasksByPet_def petTaskRows_def sent_def mset_orderByDesc)

lemma getSubmissionsByPet_rows:
  assumes "pgText petId"
  obtains submissions where "getSubmissionsByPet db petId = Inr submissions"
    and "mset submissions = image_mset (withRelations db) (mset (petSubmissionRows db petId))"
proof (cases "petTaskRows db petId = []")
  case True
  with assms have "getSubmissionsByPet db petId = Inr []"
    "petSubmissionRows db petId = []"
    by (simp_all add: getSubmissionsByPet_def petSubmissionRows_def sent_def Let_def
        flip: petTaskRows_def)
  then show ?thesis using that by simp
next
  case False
  let ?subs = "map (withRelations db)
                 (orderByDesc s_submittedAt
                    (filter (\<lambda>s. list_ex (\<lambda>i. s_taskId s = i) (map t_id (petTaskRows db petId)))
                       (homeworkSubmissions db)))"
  from False assms have "getSubmissionsByPet db petId = Inr ?subs"
    by (simp add: getSubmissionsByPet_def sent_def Let_def flip: petTaskRows_def)
  moreover have "mset ?subs = image_mset (withRelations db) (mset (petSubmissionRows db petId))"
    by (simp add: petSubmissionRows_def mset_orderByDesc list_ex_eq_mem)
  ultimately show ?thesis using that by blast
qed

text \<open>
  The comments loaded through the relation, submission by submission, are the comment
  rows selected by their foreign key: this needs the submission ids to be distinct,
  which the primary key of \<open>homework_submissions\<close> guarantees.
\<close>

lemma mset_filter_by_keys:
  "distinct ks \<Longrightarrow>
   mset (concat (map (\<lambda>k. filter (\<lambda>c. key c = k) cs) ks)) = mset (filter (\<lambda>c. key c \<in> set ks) cs)"
proof (induction ks)
  case Nil
  show ?case by simp
next
  case (Cons k ks)
  then have "k \<notin> set ks" by simp
  then have "mset (filter (\<lambda>c. key c = k) cs) + mset (filter (\<lambda>c. key c \<in> set ks) cs)
      = mset (filter (\<lambda>c. key c \<in> set (k # ks)) cs)"
    by (induction cs) auto
  with Cons show ?case by simp
qed

lemma mset_concat_cong:
  "mset xs = mset ys \<Longrightarrow> mset (concat (map f xs)) = mset (concat (map f ys))"
proof -
  have "mset (concat (map f zs)) = (\<Sum>z\<in>#mset zs. mset (f z))" for zs
    by (induction zs) simp_all
  then show "mset xs = mset ys \<Longrightarrow> ?thesis" by simp
qed

lemma loaded_comments:
  assumes "distinct (map s_id (homeworkSubmissions db))"
    and "mset submissions = image_mset (withRelations db) (mset (petSubmissionRows db petId))"
  shows "mset (concat (map comments submissions)) = mset (petCommentRows db petId)"
proof -
  let ?rows = "petSubmissionRows db petId"
  from assms(1) have d: "distinct (map s_id ?rows)"
    by (simp add: petSubmissionRows_def distinct_map_filter)
  from assms(2) have "mset submissions = mset (map (withRelations db) ?rows)" by simp
  then have "mset (concat (map comments submissions))
      = mset (concat (map comments (map (withRelations db) ?rows)))"
    by (rule mset_concat_cong)
  also have "concat (map comments (map (withRelations db) ?rows))
      = concat (map (\<lambda>k. filter (\<lambda>c. c_submissionId c = k) (trainerComments db)) (map s_id ?rows))"
    by (simp add: withRelations_def commentsOf_def comp_def)
  also have "mset \<dots> = mset (petCommentRows db petId)"
    using mset_filter_by_keys [OF d, of c_submissionId "trainerComments db"]
    by (simp add: petCommentRows_def)
  finally show ?thesis .
qed

lemma mset_expand_submissions:
  "mset (concat (map (\<lambda>s. submissionItem s # map commentItem (comments s)) subs))
     = image_mset submissionItem (mset subs)
       + image_mset commentItem (mset (concat (map comments subs)))"
  by (induction subs) simp_all

lemma entry_of_items:
  "entryRow (ti_data (taskItem t)) = TaskRow t"
  "entryRow (ti_data (submissionItem (withRelations db s))) = SubmissionRow s"
  "entryRow (ti_data (commentItem c)) = CommentRow c"
  "entryType (ti_data (taskItem t)) = ti_type (taskItem t)"
  "entryType (ti_data (submissionItem s')) = ti_type (submissionItem s')"
  "entryType (ti_data (commentItem c)) = ti_type (commentItem c)"
  "entryDate (ti_data (taskItem t)) = ti_date (taskItem t)"
  "entryDate (ti_data (submissionItem s')) = ti_date (submissionItem s')"
  "entryDate (ti_data (commentItem c)) = ti_date (commentItem c)"
  by (simp_all add: taskItem_def submissionItem_def commentItem_def withRelations_def)

lemma getTimeline_items:
  assumes "distinct (map s_id (homeworkSubmissions db))" and "pgText petId"
  obtains timeline where "getTimeline db petId = Inr timeline"
    and "mset timeline =
             image_mset taskItem (mset (petTaskRows db petId))
           + image_mset (submissionItem \<circ> withRelations db) (mset (petSubmissionRows db petId))
           + image_mset commentItem (mset (petCommentRows db petId))"
    and "sorted_wrt (\<lambda>a b. ti_date b \<le> ti_date a) timeline"
proof -
  from assms(2) obtain tasks where t: "getTasksByPet db petId = Inr tasks"
    "mset tasks = mset (petTaskRows db petId)"
    by (rule getTasksByPet_rows)
  from assms(2) obtain submissions where s: "getSubmissionsByPet db petId = Inr submissions"
    "mset submissions = image_mset (withRelations db) (mset (petSubmissionRows db petId))"
    by (rule getSubmissionsByPet_rows)
  let ?timeline = "arraySort compareDates (pushSubmissions (pushTasks [] tasks) submissions)"
  from t(1) s(1) have r: "getTimeline db petId = Inr ?timeline"
    by (simp add: getTimeline_def Let_def)
  have "mset ?timeline = image_mset taskItem (mset tasks)
      + image_mset submissionItem (mset submissions)
      + image_mset commentItem (mset (concat (map comments submissions)))"
    by (simp add: mset_arraySort pushSubmissions_eq pushTasks_eq mset_expand_submissions)
  also have "\<dots> = image_mset taskItem (mset (petTaskRows db petId))
      + image_mset (submissionItem \<circ> withRelations db) (mset (petSubmissionRows db petId))
      + image_mset commentItem (mset (petCommentRows db petId))"
    by (simp add: t(2) s(2) loaded_comments [OF assms(1) s(2)] multiset.map_comp)
  finally have m: "mset ?timeline = \<dots>" .
  have "sorted_wrt (\<lambda>a b. ti_date b \<le> ti_date a) ?timeline"
    by (rule descending_arraySort)
  with r m show ?thesis using that by blast
qed

text \<open>
  Claim C1. Submission ids are distinct (the primary key) and the pet id is text that
  PostgreSQL accepts. Then \<open>getTimeline\<close> returns a list that stands for exactly
  the task rows of the pet, the submission rows whose task is one of them and the
  comment rows whose submission is one of those: as multisets of table rows, so no row
  is lost, added or repeated, and the list has \<open>T + S + C\<close> entries. Every entry
  carries the type of its row and as \<open>date\<close> the \<open>createdAt\<close> of its task,
  the \<open>submittedAt\<close> of its submission or the \<open>createdAt\<close> of its comment, and
  the list is in descending order of that date.
\<close>

theorem getTimeline_entries_descending:
  assumes "distinct (map s_id (homeworkSubmissions db))"
    and "pgText petId"
  shows "\<exists>timeline. getTimeline db petId = Inr timeline
     \<and> image_mset (\<lambda>e. entryRow (ti_data e)) (mset timeline) =
           image_mset TaskRow (mset (petTaskRows db petId))
         + image_mset SubmissionRow (mset (petSubmissionRows db petId))
         + image_mset CommentRow (mset (petCommentRows db petId))
     \<and> length timeline =
         length (petTaskRows db petId) + length (petSubmissionRows db petId)
         + length (petCommentRows db petId)
     \<and> list_all (\<lambda>e. ti_type e = entryType (ti_data e) \<and> ti_date e = entryDate (ti_data e)) timeline
     \<and> sorted_wrt (\<lambda>a b. entryDate (ti_data a) \<ge> entryDate (ti_data b)) timeline"
proof -
  from assms obtain timeline where r: "getTimeline db petId = Inr timeline"
    and m: "mset timeline =
             image_mset taskItem (mset (petTaskRows db petId))
           + image_mset (submissionItem \<circ> withRelations db) (mset (petSubmissionRows db petId))
           + image_mset commentItem (mset (petCommentRows db petId))"
    and s: "sorted_wrt (\<lambda>a b. ti_date b \<le> ti_date a) timeline"
    by (rule getTimeline_items)
  have rows: "image_mset (\<lambda>e. entryRow (ti_data e)) (mset timeline) =
           image_mset TaskRow (mset (petTaskRows db petId))
         + image_mset SubmissionRow (mset (petSubmissionRows db petId))
         + image_mset CommentRow (mset (petCommentRows db petId))"
    unfolding m by (simp add: multiset.map_comp comp_def entry_of_items)
  have len: "length timeline =
       length (petTaskRows db petId) + length (petSubmissionRows db petId)
       + length (petCommentRows db petId)"
    using arg_cong [OF m, of size] by simp
  have "\<forall>e \<in># mset timeline. ti_type e = entryType (ti_data e) \<and> ti_date e = entryDate (ti_data e)"
    unfolding m by (auto simp: entry_of_items)
  then have d: "\<forall>e \<in> set timeline. ti_type e = entryType (ti_data e) \<and> ti_date e = entryDate (ti_data e)"
    by simp
  from s have "sorted_wrt (\<lambda>a b. entryDate (ti_data a) \<ge> entryDate (ti_data b)) timeline"
    by (rule sorted_wrt_mono_rel [rotated]) (use d in auto)
  with r rows len d show ?thesis by (simp add: list_all_iff)
qed

theorem getTimeline_entries_descending_witness:
  "distinct (map s_id (homeworkSubmissions demoDb)) \<and> pgText ''p-buddy''
   \<and> map_sum id (map ti_type) (getTimeline demoDb ''p-buddy'')
       = Inr [''comment'', ''submission'', ''task'', ''task'']
   \<and> map_sum id (map ti_date) (getTimeline demoDb ''p-buddy'') = Inr [3000, 2000, 1000, 500]
   \<and> length (petTaskRows demoDb ''p-buddy'') + length (petSubmissionRows demoDb ''p-buddy'')
       + length (petCommentRows demoDb ''p-buddy'') = 4"
proof -
  have d: "distinct (map s_id (homeworkSubmissions demoDb))" by (simp add: demoDb_def)
  have p: "pgText ''p-buddy''" by (simp add: pgText_def)
  have t: "map_sum id (map ti_type) (getTimeline demoDb ''p-buddy'')
       = Inr [''comment'', ''submission'', ''task'', ''task'']"
    "map_sum id (map ti_date) (getTimeline demoDb ''p-buddy'') = Inr [3000, 2000, 1000, 500]"
    by code_simp+
  from getTimeline_entries_descending [OF d p] obtain timeline
    where "getTimeline demoDb ''p-buddy'' = Inr timeline"
      and "length timeline =
         length (petTaskRows demoDb ''p-buddy'') + length (petSubmissionRows demoDb ''p-buddy'')
         + length (petCommentRows demoDb ''p-buddy'')"
    by blast
  with t(1) have "length (petTaskRows demoDb ''p-buddy'') + length (petSubmissionRows demoDb ''p-buddy'')
       + length (petCommentRows demoDb ''p-buddy'') = 4"
    by auto
  with d p t show ?thesis by blast
qed

section \<open>Storage layer: facts about lookups and writes\<close>

lemma find_SomeD: "find P xs = Some x \<Longrightarrow> P x \<and> x \<in> set xs"
  by (induction xs) (auto split: if_splits)

lemma find_by_unique_key:
  "distinct (map key xs) \<Longrightarrow> x \<in> set xs \<Longrightarrow> find (\<lambda>y. key y = key x) xs = Some x"
  by (induction xs) (auto simp: image_iff)

lemma find_map_same_key:
  "(\<And>x. key (f x) = key x) \<Longrightarrow>
   find (\<lambda>x. key x = k) (map (\<lambda>x. if key x = i then f x else x) xs)
     = map_option (\<lambda>x. if key x = i then f x else x) (find (\<lambda>x. key x = k) xs)"
  by (induction xs) auto

lemma getUser_updateUser:
  "getUser (updateUser db now userId updates) userId
     = map_option (\<lambda>u. u\<lparr>u_firstName := setColumn (up_firstName updates) (u_firstName u),
                           u_lastName := setColumn (up_lastName updates) (u_lastName u),
                           u_profileImageUrl := setColumn (up_profileImageUrl updates) (u_profileImageUrl u),
                           u_role := setColumn (up_role updates) (u_role u),
                           u_onboardingComplete := setColumn (up_onboardingComplete updates) (u_onboardingComplete u),
                           u_updatedAt := now\<rparr>)
         (getUser db userId)"
proof -
  let ?f = "\<lambda>u. u\<lparr>u_firstName := setColumn (up_firstName updates) (u_firstName u),
                           u_lastName := setColumn (up_lastName updates) (u_lastName u),
                           u_profileImageUrl := setColumn (up_profileImageUrl updates) (u_profileImageUrl u),
                           u_role := setColumn (up_role updates) (u_role u),
                           u_onboardingComplete := setColumn (up_onboardingComplete updates) (u_onboardingComplete u),
                           u_updatedAt := now\<rparr>"
  have "find (\<lambda>u. u_id u = userId) (map (\<lambda>u. if u_id u = userId then ?f u else u) (users db))
      = map_option (\<lambda>u. if u_id u = userId then ?f u else u) (find (\<lambda>u. u_id u = userId) (users db))"
    by (rule find_map_same_key) simp
  also have "\<dots> = map_option ?f (find (\<lambda>u. u_id u = userId) (users db))"
    by (cases "find (\<lambda>u. u_id u = userId) (users db)") (auto dest: find_SomeD)
  finally show ?thesis by (simp add: getUser_def updateUser_def)
qed

lemma getUser_ownerUpdates:
  "getUser db userId = Some u \<Longrightarrow>
   getUser (updateUser db now userId ownerUpdates) userId
     = Some (u\<lparr>u_role := Some ''OWNER'', u_onboardingComplete := False, u_updatedAt := now\<rparr>)"
  by (simp add: getUser_updateUser ownerUpdates_def setColumn_def)

lemma updateUser_other_tables:
  "workspaces (updateUser db now userId updates) = workspaces db"
  "workspaceMembers (updateUser db now userId updates) = workspaceMembers db"
  "homeworkTasks (updateUser db now userId updates) = homeworkTasks db"
  "homeworkSubmissions (updateUser db now userId updates) = homeworkSubmissions db"
  "pets (updateUser db now userId updates) = pets db"
  by (simp_all add: updateUser_def)


lemma addWorkspaceMember_Inr:
  "addWorkspaceMember db now newId workspaceId userId role = Inr (db', m) \<Longrightarrow>
   users db' = users db \<and> workspaces db' = workspaces db
   \<and> workspaceMembers db' = workspaceMembers db @ [m]
   \<and> m = \<lparr>m_id = newId, m_workspaceId = workspaceId, m_userId = userId, m_role = role,
           m_createdAt = now\<rparr>"
  by (auto simp: addWorkspaceMember_def Let_def split: if_splits)

lemma getWorkspaceByToken_SomeD:
  "getWorkspaceByToken db token = Some workspace \<Longrightarrow>
   \<exists>w \<in> set (workspaces db). w_inviteToken w = token \<and> workspace = workspaceRelations db w"
  by (auto simp: getWorkspaceByToken_def dest: find_SomeD)

section \<open>Workspaces: what the handlers maintain\<close>

text \<open>
  Workspaces are inserted by two handlers only, and both look for a workspace of the
  trainer first; the insert itself refuses a token that is in use. So invite tokens
  stay unique and every trainer has at most one workspace, whatever the requests
  (failed ones included).
\<close>

lemma createWorkspace_Inr:
  "createWorkspace db now newId trainerUserId inviteToken businessName bio = Inr (db', w) \<Longrightarrow>
   workspaces db' = workspaces db @ [w] \<and> w_trainerUserId w = trainerUserId
   \<and> w_inviteToken w = inviteToken \<and> inviteToken \<notin> set (map w_inviteToken (workspaces db))
   \<and> users db' = users db \<and> workspaceMembers db' = workspaceMembers db"
  by (auto simp: createWorkspace_def Let_def split: if_splits)

lemma map_key_updateWorkspace:
  "map w_trainerUserId (workspaces (updateWorkspace db workspaceId updates))
     = map w_trainerUserId (workspaces db)"
  "map w_inviteToken (workspaces (updateWorkspace db workspaceId updates))
     = map w_inviteToken (workspaces db)"
  by (simp_all add: updateWorkspace_def comp_def)

lemma no_workspace_of_trainer:
  "getWorkspaceByTrainer db trainerId = None \<Longrightarrow>
   trainerId \<notin> set (map w_trainerUserId (workspaces db))"
  by (auto simp: getWorkspaceByTrainer_def find_None_iff)

lemma workspaceInvariant_create_path:
  assumes "workspaceInvariant db"
    and "getWorkspaceByTrainer db userId = None"
    and "createWorkspace db now newId userId inviteToken businessName bio = Inr (db1, w)"
  shows "workspaceInvariant db1"
  using assms by (auto simp: workspaceInvariant_def dest!: createWorkspace_Inr no_workspace_of_trainer)

lemma workspaceInvariant_same_workspaces:
  "workspaces db' = workspaces db \<Longrightarrow> workspaceInvariant db' = workspaceInvariant db"
  by (simp add: workspaceInvariant_def)

lemma getWorkspaceByTrainer_updateUser:
  "(getWorkspaceByTrainer (updateUser db now userId updates) trainerId = None)
     = (getWorkspaceByTrainer db trainerId = None)"
  by (simp add: getWorkspaceByTrainer_def updateUser_other_tables)

lemma postCreateWorkspace_invariant:
  assumes "workspaceInvariant db"
  shows "workspaceInvariant (fst (postCreateWorkspace rt db session))"
proof (cases "getUserId session")
  case None
  then show ?thesis using assms by (auto simp: postCreateWorkspace_def split: option.splits)
next
  case (Some userId)
  then obtain sub where s: "session = Some sub" by (cases session) (auto simp: getUserId_def)
  show ?thesis
  proof (cases "getWorkspaceByTrainer db userId")
    case existing: (Some w)
    with Some s assms show ?thesis by (simp add: postCreateWorkspace_def)
  next
    case None
    show ?thesis
    proof (cases "createWorkspace db (rt_now rt) (rt_uuid rt 0) userId (rt_randomToken rt) None None")
      case (Inl e)
      with None Some s assms show ?thesis by (simp add: postCreateWorkspace_def)
    next
      case (Inr r)
      obtain db1 w where r: "r = (db1, w)" by (cases r)
      with Inr None assms have i: "workspaceInvariant db1"
        by (auto intro: workspaceInvariant_create_path)
      show ?thesis
      proof (cases "addWorkspaceMember db1 (rt_now rt) (rt_uuid rt 1) (w_id w) userId ''TRAINER''")
        case (Inl e)
        with Inr r None Some s i show ?thesis by (simp add: postCreateWorkspace_def)
      next
        case member: (Inr r')
        obtain db2 m where r': "r' = (db2, m)" by (cases r')
        with member have "workspaces db2 = workspaces db1" by (auto dest: addWorkspaceMember_Inr)
        with i have "workspaceInvariant (updateUser db2 (rt_now rt) userId trainerRole)"
          by (simp add: workspaceInvariant_def updateUser_other_tables)
        with member r' Inr r None Some s show ?thesis
          by (simp add: postCreateWorkspace_def Let_def)
      qed
    qed
  qed
qed

lemma postTrainerProfile_invariant:
  assumes "workspaceInvariant db"
  shows "workspaceInvariant
           (fst (postTrainerProfile trim rt db session displayName businessName bio profilePhoto))"
proof (cases "getUserId session")
  case None
  then show ?thesis using assms by (auto simp: postTrainerProfile_def split: option.splits)
next
  case (Some userId)
  then obtain sub where s: "session = Some sub" by (cases session) (auto simp: getUserId_def)
  show ?thesis
  proof (cases "orNull displayName")
    case None
    with Some s assms show ?thesis by (simp add: postTrainerProfile_def)
  next
    case name: (Some displayName')
    show ?thesis
    proof (cases "length (trim displayName') = 0")
      case True
      with name Some s assms show ?thesis by (simp add: postTrainerProfile_def)
    next
      case False
      let ?ups = "trainerUpdates (split (CHR '' '') (trim displayName')) profilePhoto"
      let ?db1 = "updateUser db (rt_now rt) userId ?ups"
      show ?thesis
      proof (cases "list_all pgText (userUpdateTexts ?ups)")
        case refused: False
        with False name Some s assms show ?thesis
          by (simp add: postTrainerProfile_def Let_def sent_refused)
      next
        case accepted: True
      from assms have i1: "workspaceInvariant ?db1"
        by (simp add: workspaceInvariant_def updateUser_other_tables)
      show ?thesis
      proof (cases "getWorkspaceByTrainer ?db1 userId")
        case existing: (Some w)
        let ?wu = "\<lparr>up_businessName = Some (orNull businessName), up_bio = Some (orNull bio)\<rparr>"
        from i1 have "workspaceInvariant (updateWorkspace ?db1 (w_id w) ?wu)"
          by (simp add: workspaceInvariant_def map_key_updateWorkspace)
        with i1 existing accepted False name Some s show ?thesis
          by (cases "list_all pgText (workspaceUpdateTexts ?wu)")
             (simp_all add: postTrainerProfile_def Let_def sent_def)
      next
        case None
        show ?thesis
        proof (cases "createWorkspace ?db1 (rt_now rt) (rt_uuid rt 0) userId (rt_randomToken rt)
                        (orNull businessName) (orNull bio)")
          case (Inl e)
          with None accepted False name Some s i1 show ?thesis
            by (simp add: postTrainerProfile_def Let_def sent_accepted)
        next
          case (Inr r)
          obtain db2 w where r: "r = (db2, w)" by (cases r)
          with Inr None i1 have i2: "workspaceInvariant db2"
            by (auto intro: workspaceInvariant_create_path)
          show ?thesis
          proof (cases "addWorkspaceMember db2 (rt_now rt) (rt_uuid rt 1) (w_id w) userId ''TRAINER''")
            case (Inl e)
            with Inr r None accepted False name Some s i2 show ?thesis
              by (simp add: postTrainerProfile_def Let_def sent_accepted)
          next
            case member: (Inr r')
            obtain db3 m where r': "r' = (db3, m)" by (cases r')
            with member have "workspaces db3 = workspaces db2" by (auto dest: addWorkspaceMember_Inr)
            with i2 have "workspaceInvariant db3" by (simp add: workspaceInvariant_def)
            with member r' Inr r None accepted False name Some s show ?thesis
              by (simp add: postTrainerProfile_def Let_def sent_accepted)
          qed
        qed
      qed
      qed
    qed
  qed
qed

lemma postJoin_keeps_workspaces:
  "workspaces (fst (postJoin rt db session token)) = workspaces db"
  by (auto simp: postJoin_def Let_def updateUser_other_tables
      split: option.splits sum.splits prod.splits dest: addWorkspaceMember_Inr)

lemma distinct_key_filter:
  "distinct (map key xs) \<Longrightarrow> length (filter (\<lambda>x. key x = k) xs) \<le> 1"
proof (induction xs)
  case Nil
  show ?case by simp
next
  case (Cons x xs)
  then have "key x = k \<Longrightarrow> filter (\<lambda>x. key x = k) xs = []"
    by (auto simp: filter_empty_conv image_iff)
  with Cons show ?case by (cases "key x = k") simp_all
qed

lemma workspaceInvariant_one_per_trainer:
  "workspaceInvariant db \<Longrightarrow> length (workspacesOf db trainerId) \<le> 1"
  using distinct_key_filter [of w_trainerUserId "workspaces db" trainerId]
  by (simp add: workspaceInvariant_def workspacesOf_def)

section \<open>Calendar classifier: proofs\<close>

lemma dayNameToNumber_abbreviation:
  "n < 7 \<Longrightarrow> (dayNameToNumber d = Some n) =
     (d = [''Sun'', ''Mon'', ''Tue'', ''Wed'', ''Thu'', ''Fri'', ''Sat''] ! n)"
proof -
  assume "n < 7"
  then consider "n = 0" | "n = 1" | "n = 2" | "n = 3" | "n = 4" | "n = 5" | "n = 6"
    by linarith
  then show ?thesis
    by cases (auto simp: dayNameToNumber_def)
qed

lemma preferred_days_member:
  "getDay day < 7 \<Longrightarrow>
   list_ex (\<lambda>d. dayNameToNumber d = Some (getDay day)) ds = (weekdayAbbreviation getDay day \<in> set ds)"
  by (auto simp: list_ex_iff weekdayAbbreviation_def dayNameToNumber_abbreviation)

lemma frequency_days_member:
  assumes "n < 7"
  shows "([''Sun'', ''Mon'', ''Tue'', ''Wed'', ''Thu'', ''Fri'', ''Sat''] ! n \<in> set (claimedFrequencyDays f)) =
     (if f = ''daily'' then True
      else if f = ''3x/week'' \<or> f = ''3x per week'' then n = 1 \<or> n = 3 \<or> n = 5
      else if f = ''2x/week'' \<or> f = ''2x per week'' then n = 2 \<or> n = 5
      else if f = ''weekly'' then n = 1
      else True)"
proof -
  from assms consider "n = 0" | "n = 1" | "n = 2" | "n = 3" | "n = 4" | "n = 5" | "n = 6"
    by linarith
  then show ?thesis
    by cases (simp_all add: claimedFrequencyDays_def everyDay_def)
qed

lemma isTaskForDay_scheduled:
  assumes "getDay day < 7"
  shows "isTaskForDay toLowerCase (getDay day) = scheduledBy (frequencyDays toLowerCase) getDay day"
proof (rule ext)
  fix task :: "'a homeworkTask_scheme"
  show "isTaskForDay toLowerCase (getDay day) task
      = scheduledBy (frequencyDays toLowerCase) getDay day task"
  proof (cases "t_preferredDays task")
    case None
    then show ?thesis
      using frequency_days_member [OF assms, of "toLowerCase (t_frequency task)"]
      by (simp add: isTaskForDay_def scheduledBy_def frequencyDays_def weekdayAbbreviation_def Let_def)
  next
    case (Some ds)
    show ?thesis
    proof (cases ds)
      case Nil
      with Some show ?thesis
        using frequency_days_member [OF assms, of "toLowerCase (t_frequency task)"]
        by (simp add: isTaskForDay_def scheduledBy_def frequencyDays_def weekdayAbbreviation_def Let_def)
    next
      case (Cons d ds')
      with Some show ?thesis
        using preferred_days_member [of getDay day "d # ds'", OF assms]
        by (simp add: isTaskForDay_def scheduledBy_def)
    qed
  qed
qed

lemma getTasksForDay_scheduled:
  fixes tasks :: "'a homeworkTask_scheme list"
  assumes "getDay day < 7"
  shows "getTasksForDay toLowerCase getDay tasks day
     = filter (scheduledBy (frequencyDays toLowerCase) getDay day) tasks"
proof -
  have "isTaskForDay toLowerCase (getDay day)
      = (scheduledBy (frequencyDays toLowerCase) getDay day :: 'a homeworkTask_scheme \<Rightarrow> bool)"
    using assms by (rule isTaskForDay_scheduled [of getDay day])
  then show ?thesis by (simp add: getTasksForDay_def)
qed

lemma same_day_submission:
  "(\<lambda>task. list_ex (\<lambda>sub. s_taskId sub = t_id task) (getSubmissionsForDay isSameDay submissions day))
     = hasSameDaySubmission isSameDay submissions day"
  by (rule ext) (auto simp: list_ex_iff getSubmissionsForDay_def hasSameDaySubmission_def)

lemma count_all: "(length xs \<le> length (filter P xs)) = list_all P xs"
proof (induction xs)
  case Nil
  show ?case by simp
next
  case (Cons x xs)
  show ?case
  proof (cases "P x")
    case True
    then show ?thesis using Cons.IH by simp
  next
    case False
    have "\<not> Suc (length xs) \<le> length (filter P xs)"
      using length_filter_le [of P xs] by linarith
    with False show ?thesis by simp
  qed
qed

lemma count_some: "(0 < length (filter P xs)) = list_ex P xs"
  by (auto simp: list_ex_iff filter_empty_conv)

lemma classify_by_count:
  "(if length due = 0 then a
    else if f then b
    else if length due \<le> length (filter P due) then c
    else if 0 < length (filter P due) then d else e)
   = (if due = [] then a
      else if f then b
      else if list_all P due then c
      else if list_ex P due then d else e)"
  unfolding count_all count_some by simp

text \<open>
  Claim C2 (as amended). \<open>getDay\<close>, \<open>isSameDay\<close> and \<open>toLowerCase\<close> are the
  functions of date-fns and of the runtime, whatever the time zone; \<open>getDay\<close>
  returns a weekday number (0 to 6) for the day. For every day, task list and
  submission list, the tasks \<open>getTasksForDay\<close> keeps are exactly those scheduled
  on the day: a non-empty \<open>preferredDays\<close> decides by membership of the day's
  weekday abbreviation; otherwise the lower-cased frequency decides (daily: every day;
  3x/week or 3x per week: Mon, Wed, Fri; 2x/week or 2x per week: Tue, Fri; weekly: Mon;
  anything else: every day). The status is \<open>none\<close> without scheduled tasks, else
  \<open>future\<close> when the day is after the current time, else \<open>complete\<close>,
  \<open>partial\<close> or \<open>missed\<close> as all, some or none of the scheduled tasks have a
  submission on the same day.
\<close>

theorem getDayStatus_classifier:
  assumes "getDay day < 7"
  shows "getTasksForDay toLowerCase getDay tasks day
           = filter (scheduledBy (frequencyDays toLowerCase) getDay day) tasks
         \<and> getDayStatus toLowerCase getDay isSameDay now tasks submissions day
             = statusBy (frequencyDays toLowerCase) getDay isSameDay now tasks submissions day"
proof -
  let ?due = "filter (scheduledBy (frequencyDays toLowerCase) getDay day) tasks"
  let ?done = "hasSameDaySubmission isSameDay submissions day"
  note tasks = getTasksForDay_scheduled [of getDay day toLowerCase tasks, OF assms]
  have "getDayStatus toLowerCase getDay isSameDay now tasks submissions day =
     (if length ?due = 0 then Status_none
      else if day > now then Status_future
      else if length ?due \<le> length (filter ?done ?due) then Status_complete
      else if 0 < length (filter ?done ?due) then Status_partial else Status_missed)"
    by (simp only: getDayStatus_def tasks same_day_submission Let_def)
  also have "\<dots> =
     (if ?due = [] then Status_none
      else if day > now then Status_future
      else if list_all ?done ?due then Status_complete
      else if list_ex ?done ?due then Status_partial else Status_missed)"
    by (rule classify_by_count)
  also have "\<dots> = statusBy (frequencyDays toLowerCase) getDay isSameDay now tasks submissions day"
    by (simp only: statusBy_def Let_def)
  finally show ?thesis by (simp only: tasks simp_thms)
qed

theorem getDayStatus_classifier_witness:
  "utcGetDay demoMonday < 7
   \<and> getTasksForDay asciiToLowerCase utcGetDay [monWedTask, walkTask] demoMonday = [monWedTask, walkTask]
   \<and> getTasksForDay asciiToLowerCase utcGetDay [monWedTask, walkTask] (demoMonday + msPerDay) = []
   \<and> getDayStatus asciiToLowerCase utcGetDay utcIsSameDay (demoMonday + 1) [monWedTask] [sitSubmission]
        demoMonday = Status_missed
   \<and> getDayStatus asciiToLowerCase utcGetDay utcIsSameDay (demoMonday - 1) [monWedTask] [sitSubmission]
        demoMonday = Status_future
   \<and> statusBy (frequencyDays asciiToLowerCase) utcGetDay utcIsSameDay (demoMonday + 1) [monWedTask]
        [sitSubmission] demoMonday = Status_missed"
proof -
  have day: "utcGetDay demoMonday < 7" by code_simp
  have tasks:
    "getTasksForDay asciiToLowerCase utcGetDay [monWedTask, walkTask] demoMonday = [monWedTask, walkTask]"
    "getTasksForDay asciiToLowerCase utcGetDay [monWedTask, walkTask] (demoMonday + msPerDay) = []"
    by code_simp+
  have status:
    "getDayStatus asciiToLowerCase utcGetDay utcIsSameDay (demoMonday + 1) [monWedTask] [sitSubmission]
       demoMonday = Status_missed"
    "getDayStatus asciiToLowerCase utcGetDay utcIsSameDay (demoMonday - 1) [monWedTask] [sitSubmission]
       demoMonday = Status_future"
    by code_simp+
  have "statusBy (frequencyDays asciiToLowerCase) utcGetDay utcIsSameDay (demoMonday + 1) [monWedTask]
          [sitSubmission] demoMonday
      = getDayStatus asciiToLowerCase utcGetDay utcIsSameDay (demoMonday + 1) [monWedTask]
          [sitSubmission] demoMonday"
    using getDayStatus_classifier [of utcGetDay demoMonday asciiToLowerCase "[monWedTask]"
        utcIsSameDay "demoMonday + 1" "[sitSubmission]", OF day]
    by simp
  with day tasks status show ?thesis by simp
qed

text \<open>
  The claim as it is worded compares the stored frequency string itself with
  \<open>weekly\<close>; the code lower-cases it first. A task whose frequency is stored as
  \<open>Weekly\<close> is, on a Tuesday, scheduled by the wording (any other string: every day)
  and not scheduled by the code.
\<close>

theorem getTasksForDay_capitalised_counterexample:
  "t_frequency walkTask = ''Weekly'' \<and> t_preferredDays walkTask = None
   \<and> asciiToLowerCase ''Weekly'' = ''weekly''
   \<and> utcGetDay (demoMonday + msPerDay) = 2
   \<and> getTasksForDay asciiToLowerCase utcGetDay [walkTask] (demoMonday + msPerDay) = []
   \<and> filter (scheduledBy claimedFrequencyDays utcGetDay (demoMonday + msPerDay)) [walkTask] = [walkTask]"
  by (simp add: getTasksForDay_def isTaskForDay_def scheduledBy_def claimedFrequencyDays_def
      everyDay_def weekdayAbbreviation_def utcGetDay_def utcDayNumber_def msPerDay_def
      demoMonday_def walkTask_def asciiToLowerCase_def lowerCaseOf_def Let_def)

lemma getDayStatus_future:
  "(getDayStatus toLowerCase getDay isSameDay now tasks submissions day = Status_future)
     = (getTasksForDay toLowerCase getDay tasks day \<noteq> [] \<and> day > now)"
  by (simp add: getDayStatus_def Let_def)

text \<open>
  Claim C4 (as amended). \<open>getDayStatus\<close> reads the clock, and its answer changes
  with the clock and with nothing else that is not an argument. For two evaluations
  with the same day, task list and submission list (and the same library functions),
  at the times \<open>now\<close> and \<open>now'\<close>: the two statuses are equal if and only if no
  task is scheduled on the day or the day is after both times or after neither; and a
  status is \<open>future\<close> exactly when a task is scheduled on the day and the day is
  after the time of the evaluation.
\<close>

theorem getDayStatus_clock_dependence:
  "(getDayStatus toLowerCase getDay isSameDay now tasks submissions day
      = getDayStatus toLowerCase getDay isSameDay now' tasks submissions day)
     = (getTasksForDay toLowerCase getDay tasks day = [] \<or> (day > now) = (day > now'))
   \<and> (getDayStatus toLowerCase getDay isSameDay now tasks submissions day = Status_future)
       = (getTasksForDay toLowerCase getDay tasks day \<noteq> [] \<and> day > now)"
proof -
  let ?status = "\<lambda>t. getDayStatus toLowerCase getDay isSameDay t tasks submissions day"
  let ?due = "getTasksForDay toLowerCase getDay tasks day"
  have same: "?status now = ?status now'" if "?due = [] \<or> (day > now) = (day > now')"
    using that by (auto simp: getDayStatus_def Let_def)
  have differ: "?status now \<noteq> ?status now'" if "?due \<noteq> []" and "(day > now) \<noteq> (day > now')"
  proof (cases "day > now")
    case True
    with that have "?status now = Status_future" "?status now' \<noteq> Status_future"
      by (simp_all add: getDayStatus_future)
    then show ?thesis by simp
  next
    case False
    with that have "?status now \<noteq> Status_future" "?status now' = Status_future"
      by (simp_all add: getDayStatus_future)
    then show ?thesis by simp
  qed
  from same differ
  have "(?status now = ?status now') = (?due = [] \<or> (day > now) = (day > now'))"
    by blast
  then show ?thesis by (simp only: getDayStatus_future simp_thms)
qed

theorem getDayStatus_clock_dependence_witness:
  "getTasksForDay asciiToLowerCase utcGetDay [sitTask] demoMonday = [sitTask]
   \<and> getDayStatus asciiToLowerCase utcGetDay utcIsSameDay (demoMonday + 1) [sitTask] [sitSubmission]
        demoMonday = Status_missed
   \<and> getDayStatus asciiToLowerCase utcGetDay utcIsSameDay (demoMonday + 2) [sitTask] [sitSubmission]
        demoMonday = Status_missed
   \<and> getDayStatus asciiToLowerCase utcGetDay utcIsSameDay (demoMonday - 1) [sitTask] [sitSubmission]
        demoMonday = Status_future"
proof -
  let ?status = "\<lambda>t. getDayStatus asciiToLowerCase utcGetDay utcIsSameDay t [sitTask] [sitSubmission]
                        demoMonday"
  have due: "getTasksForDay asciiToLowerCase utcGetDay [sitTask] demoMonday = [sitTask]"
    by code_simp
  have missed: "?status (demoMonday + 1) = Status_missed" by code_simp
  have "(demoMonday > demoMonday + 1) = (demoMonday > demoMonday + 2)" by simp
  with getDayStatus_clock_dependence [of asciiToLowerCase utcGetDay utcIsSameDay "demoMonday + 1"
      "[sitTask]" "[sitSubmission]" demoMonday "demoMonday + 2"]
  have "?status (demoMonday + 1) = ?status (demoMonday + 2)" by blast
  with missed have later: "?status (demoMonday + 2) = Status_missed" by simp
  have "demoMonday > demoMonday - 1" by simp
  with due getDayStatus_clock_dependence [of asciiToLowerCase utcGetDay utcIsSameDay "demoMonday - 1"
      "[sitTask]" "[sitSubmission]" demoMonday "demoMonday - 1"]
  have "?status (demoMonday - 1) = Status_future" by simp
  with due missed later show ?thesis by simp
qed

text \<open>
  With nothing but the clock changed, the same day, tasks and submissions are
  classified \<open>future\<close> before the day starts and \<open>missed\<close> after it.
\<close>

theorem getDayStatus_clock_counterexample:
  "getDayStatus asciiToLowerCase utcGetDay utcIsSameDay (demoMonday - 1) [sitTask] [sitSubmission]
     demoMonday = Status_future
   \<and> getDayStatus asciiToLowerCase utcGetDay utcIsSameDay (demoMonday + 1) [sitTask] [sitSubmission]
       demoMonday = Status_missed
   \<and> getDayStatus asciiToLowerCase utcGetDay utcIsSameDay (demoMonday - 1) [sitTask] [sitSubmission]
       demoMonday
     \<noteq> getDayStatus asciiToLowerCase utcGetDay utcIsSameDay (demoMonday + 1) [sitTask] [sitSubmission]
         demoMonday"
  by (simp add: getTasksForDay_def isTaskForDay_def getDayStatus_def getSubmissionsForDay_def
      utcGetDay_def utcDayNumber_def utcIsSameDay_def msPerDay_def demoMonday_def sitTask_def
      sitSubmission_def asciiToLowerCase_def lowerCaseOf_def Let_def)

section \<open>Invite validation and join: proofs\<close>

lemma getWorkspaceByToken_unique:
  assumes "distinct (map w_inviteToken (workspaces db))" and "w \<in> set (workspaces db)"
  shows "getWorkspaceByToken db (w_inviteToken w) = Some (workspaceRelations db w)"
proof -
  from assms have "find (\<lambda>y. w_inviteToken y = w_inviteToken w) (workspaces db) = Some w"
    by (rule find_by_unique_key)
  then show ?thesis by (simp add: getWorkspaceByToken_def)
qed

lemma getWorkspaceByToken_unknown:
  "token \<notin> set (map w_inviteToken (workspaces db)) \<Longrightarrow> getWorkspaceByToken db token = None"
  by (auto simp: getWorkspaceByToken_def find_None_iff)

text \<open>
  Claim C9 (as amended). Invite tokens are unique (the schema's \<open>unique()\<close> on
  \<open>invite_token\<close>) and are text that PostgreSQL stores (no NUL character). Then for
  every workspace, validating its invite token returns 200 with that workspace's id,
  its trainer's display name (first and last name joined by a space, trimmed) and its
  business name. Validating a token that no workspace has returns 404 "Invalid invite
  link" when PostgreSQL accepts the token as text, and 500 "Failed to validate invite"
  when the token contains a NUL character.
\<close>

theorem getValidateToken_found_not_found_or_refused:
  assumes "distinct (map w_inviteToken (workspaces db))"
    and "list_all pgText (map w_inviteToken (workspaces db))"
  shows "(\<forall>w \<in> set (workspaces db).
            getValidateToken trim db (w_inviteToken w)
              = res_json (ValidateBody (w_id w) (trainerDisplayName trim db w) (w_businessName w)))
         \<and> (token \<notin> set (map w_inviteToken (workspaces db)) \<and> pgText token \<longrightarrow>
              getValidateToken trim db token = status_json 404 (Message ''Invalid invite link''))
         \<and> (\<not> pgText token \<longrightarrow>
              token \<notin> set (map w_inviteToken (workspaces db))
              \<and> getValidateToken trim db token
                  = status_json 500 (Message ''Failed to validate invite''))"
proof (intro conjI ballI impI)
  fix w assume w: "w \<in> set (workspaces db)"
  with assms(2) have "pgText (w_inviteToken w)" by (simp add: list_all_iff)
  moreover note getWorkspaceByToken_unique [OF assms(1) w]
  ultimately show "getValidateToken trim db (w_inviteToken w)
      = res_json (ValidateBody (w_id w) (trainerDisplayName trim db w) (w_businessName w))"
    by (simp add: getValidateToken_def sent_def workspaceRelations_def trainerDisplayName_def
        orEmpty_def split: option.splits)
next
  assume "token \<notin> set (map w_inviteToken (workspaces db)) \<and> pgText token"
  then show "getValidateToken trim db token = status_json 404 (Message ''Invalid invite link'')"
    by (simp add: getValidateToken_def sent_def getWorkspaceByToken_unknown)
next
  assume "\<not> pgText token"
  with assms(2) show "token \<notin> set (map w_inviteToken (workspaces db))"
    by (auto simp: list_all_iff)
next
  assume "\<not> pgText token"
  then show "getValidateToken trim db token = status_json 500 (Message ''Failed to validate invite'')"
    by (simp add: getValidateToken_def sent_def)
qed

theorem getValidateToken_found_not_found_or_refused_witness:
  "distinct (map w_inviteToken (workspaces demoDb))
   \<and> list_all pgText (map w_inviteToken (workspaces demoDb))
   \<and> getValidateToken asciiTrim demoDb ''tok-sarah''
       = res_json (ValidateBody ''w-1'' ''Sarah Johnson'' (Some ''Happy Paws''))
   \<and> getValidateToken asciiTrim demoDb ''tok-unknown''
       = status_json 404 (Message ''Invalid invite link'')"
proof -
  have d: "distinct (map w_inviteToken (workspaces demoDb))"
    by (simp add: demoDb_def)
  have a: "list_all pgText (map w_inviteToken (workspaces demoDb))"
    by (simp add: demoDb_def sarahWorkspace_def pgText_def)
  have w: "sarahWorkspace \<in> set (workspaces demoDb)"
    by (simp add: demoDb_def)
  have n: "trainerDisplayName asciiTrim demoDb sarahWorkspace = ''Sarah Johnson''"
    by code_simp
  have t: "''tok-unknown'' \<notin> set (map w_inviteToken (workspaces demoDb))" "pgText ''tok-unknown''"
    by (simp_all add: demoDb_def sarahWorkspace_def pgText_def)
  from getValidateToken_found_not_found_or_refused [OF d a, of asciiTrim "''tok-unknown''"] w n t d a
  show ?thesis by (auto simp: sarahWorkspace_def)
qed

text \<open>
  The claim as it is worded answers every token that matches no workspace with
  not-found. A token with a NUL character (\<^verbatim>\<open>%00\<close> in the URL) matches no
  workspace, but the lookup throws on it and the handler's \<^verbatim>\<open>catch\<close> block answers
  500.
\<close>

theorem getValidateToken_nul_counterexample:
  "(''tok'' @ [CHR 0x00]) \<notin> set (map w_inviteToken (workspaces demoDb))
   \<and> getValidateToken asciiTrim demoDb (''tok'' @ [CHR 0x00])
       = status_json 500 (Message ''Failed to validate invite'')
   \<and> getValidateToken asciiTrim demoDb (''tok'' @ [CHR 0x00]) \<noteq> InvalidToken"
  by (simp add: getValidateToken_def sent_def pgText_def demoDb_def sarahWorkspace_def
      InvalidToken_def status_json_def)

text \<open>
  Claim C6. A join request that carries a token, from the user who is the trainer of
  the workspace the token matches, is answered with \<open>SelfJoin\<close> (400, "You cannot
  join your own workspace as an owner") and leaves the whole database as it was: no
  membership row is added and no user row is touched.
\<close>

theorem postJoin_own_workspace_SelfJoin:
  assumes "getUserId session = Some userId"
    and "token \<noteq> []"
    and "getWorkspaceByToken db token = Some workspace"
    and "w_trainerUserId workspace = userId"
  shows "postJoin rt db session (Some token) = (db, SelfJoin)"
  using assms
  by (auto simp: postJoin_def SelfJoin_def getUserId_def orNull_def split: option.splits)

theorem postJoin_own_workspace_SelfJoin_witness:
  "getUserId (Some ''u-sarah'') = Some ''u-sarah''
   \<and> map_option w_trainerUserId (getWorkspaceByToken trainerDb ''tok-fresh'') = Some ''u-sarah''
   \<and> postJoin laterRuntime trainerDb (Some ''u-sarah'') (Some ''tok-fresh'') = (trainerDb, SelfJoin)"
proof -
  have u: "getUserId (Some ''u-sarah'') = Some ''u-sarah''" by (simp add: getUserId_def)
  have t: "''tok-fresh'' \<noteq> []" by simp
  obtain workspace where w: "getWorkspaceByToken trainerDb ''tok-fresh'' = Some workspace"
    and o: "w_trainerUserId workspace = ''u-sarah''"
  proof -
    have "map_option w_trainerUserId (getWorkspaceByToken trainerDb ''tok-fresh'') = Some ''u-sarah''"
      by code_simp
    then show ?thesis using that by auto
  qed
  from postJoin_own_workspace_SelfJoin [OF u t w o, of laterRuntime] u w o
  show ?thesis by simp
qed

text \<open>
  What a join that was answered with a 2xx status has done: the token matched a
  workspace of another trainer, and either the user was a member already and only the
  user row was updated (200), or the user was no member and one membership row was
  appended before the user row was updated (201).
\<close>

lemma postJoin_successful_cases:
  assumes "postJoin rt db session token = (db1, res1)"
    and "successful res1"
    and "getUserId session = Some userId"
  obtains (again) t workspace where "token = Some t" "t \<noteq> []"
      "getWorkspaceByToken db t = Some workspace" "w_trainerUserId workspace \<noteq> userId"
      "membershipCount db (w_id workspace) userId > 0"
      "db1 = updateUser db (rt_now rt) userId ownerUpdates"
      "res1 = res_json (JoinBody (w_id workspace) (Some True))"
  | (first) t workspace db' m where "token = Some t" "t \<noteq> []"
      "getWorkspaceByToken db t = Some workspace" "w_trainerUserId workspace \<noteq> userId"
      "membershipCount db (w_id workspace) userId = 0"
      "addWorkspaceMember db (rt_now rt) (rt_uuid rt 0) (w_id workspace) userId ''OWNER'' = Inr (db', m)"
      "db1 = updateUser db' (rt_now rt) userId ownerUpdates"
      "res1 = status_json 201 (JoinBody (w_id workspace) None)"
proof -
  from assms(3) obtain sub where s: "session = Some sub"
    by (cases session) (auto simp: getUserId_def)
  have count: "(membershipCount db workspaceId userId > 0)
      = list_ex (\<lambda>m. m_userId m = userId) (getWorkspaceMembers db workspaceId)" for workspaceId
    by (auto simp: membershipCount_def getWorkspaceMembers_def list_ex_iff filter_empty_conv)
  show ?thesis
  proof (cases "orNull token")
    case None
    with assms s show ?thesis by (auto simp: postJoin_def successful_def status_json_def)
  next
    case (Some t)
    then have t: "token = Some t" "t \<noteq> []"
      by (auto simp: orNull_def split: option.splits if_splits)
    show ?thesis
    proof (cases "getWorkspaceByToken db t")
      case None
      with Some assms s show ?thesis by (auto simp: postJoin_def successful_def status_json_def)
    next
      case ws: (Some workspace)
      show ?thesis
      proof (cases "w_trainerUserId workspace = userId")
        case True
        with ws Some assms s show ?thesis
          by (auto simp: postJoin_def successful_def status_json_def)
      next
        case other: False
        show ?thesis
        proof (cases "list_ex (\<lambda>m. m_userId m = userId) (getWorkspaceMembers db (w_id workspace))")
          case True
          with other ws Some assms(1,3) s
          have "db1 = updateUser db (rt_now rt) userId ownerUpdates"
            "res1 = res_json (JoinBody (w_id workspace) (Some True))"
            by (auto simp: postJoin_def Let_def)
          with True t ws other show ?thesis by (intro again) (simp_all add: count)
        next
          case False
          show ?thesis
          proof (cases "addWorkspaceMember db (rt_now rt) (rt_uuid rt 0) (w_id workspace) userId ''OWNER''")
            case (Inl e)
            with False other ws Some assms s show ?thesis
              by (auto simp: postJoin_def Let_def successful_def status_json_def)
          next
            case (Inr r)
            obtain db' m where r: "r = (db', m)" by (cases r)
            with Inr False other ws Some assms(1,3) s
            have "db1 = updateUser db' (rt_now rt) userId ownerUpdates"
              "res1 = status_json 201 (JoinBody (w_id workspace) None)"
              by (auto simp: postJoin_def Let_def)
            moreover from False have "membershipCount db (w_id workspace) userId = 0"
              using count [of "w_id workspace"] by simp
            ultimately show ?thesis using t ws other Inr r by (intro first) simp_all
          qed
        qed
      qed
    qed
  qed
qed

text \<open>A join by a member who is not the trainer, whatever made the user a member.\<close>

lemma postJoin_member:
  assumes "getUserId session = Some userId"
    and "token \<noteq> []"
    and "getWorkspaceByToken db token = Some workspace"
    and "w_trainerUserId workspace \<noteq> userId"
    and "membershipCount db (w_id workspace) userId > 0"
  shows "postJoin rt db session (Some token)
           = (updateUser db (rt_now rt) userId ownerUpdates, alreadyMemberOf (w_id workspace))"
proof -
  from assms(5) have "list_ex (\<lambda>m. m_userId m = userId) (getWorkspaceMembers db (w_id workspace))"
    by (auto simp: membershipCount_def getWorkspaceMembers_def list_ex_iff filter_empty_conv)
  with assms(1-4) show ?thesis
    by (auto simp: postJoin_def alreadyMemberOf_def getUserId_def orNull_def Let_def
        split: option.splits)
qed

lemma getWorkspaceByToken_same_workspaces:
  assumes "getWorkspaceByToken db token = Some workspace"
    and "workspaces db1 = workspaces db"
  obtains workspace1 where "getWorkspaceByToken db1 token = Some workspace1"
    and "w_id workspace1 = w_id workspace"
    and "w_trainerUserId workspace1 = w_trainerUserId workspace"
  using assms by (auto simp: getWorkspaceByToken_def workspaceRelations_def)

text \<open>
  Claim C3. A user has joined a workspace with a token: the join was answered with a
  2xx status, naming the workspace. A second join by the same user with the same
  token, on the database the first one left, is answered with
  \<open>{workspaceId, alreadyMember: true}\<close> and leaves the membership table as it is:
  no row is inserted, and the number of membership rows of the (workspace, user) pair
  stays what it was. That number is 1: a first join answered with 201 found no row of
  the pair and inserted one, and one answered with 200 found the pair's row (the only
  one, with at most one row per pair before).
\<close>

theorem postJoin_second_join_already_member:
  assumes "getUserId session = Some userId"
    and "postJoin rt db session token = (db1, res1)"
    and "successful res1"
    and "res_body res1 = JoinBody workspaceId flag"
  shows "snd (postJoin rt' db1 session token) = alreadyMemberOf workspaceId
         \<and> workspaceMembers (fst (postJoin rt' db1 session token)) = workspaceMembers db1
         \<and> membershipCount (fst (postJoin rt' db1 session token)) workspaceId userId
             = membershipCount db1 workspaceId userId
         \<and> (res_status res1 = 201 \<longrightarrow>
               membershipCount db workspaceId userId = 0
               \<and> membershipCount db1 workspaceId userId = 1)
         \<and> (membershipCount db workspaceId userId \<le> 1 \<longrightarrow>
               membershipCount db1 workspaceId userId = 1)"
proof -
  from assms(2,3,1) show ?thesis
  proof (cases rule: postJoin_successful_cases)
    case (again t workspace)
    from again(7) assms(4) have wid: "workspaceId = w_id workspace"
      by (simp add: res_json_def status_json_def)
    from again(6) have same: "workspaces db1 = workspaces db"
      "workspaceMembers db1 = workspaceMembers db"
      by (simp_all add: updateUser_other_tables)
    from again(3) same(1) obtain workspace1
      where w1: "getWorkspaceByToken db1 t = Some workspace1" "w_id workspace1 = w_id workspace"
        "w_trainerUserId workspace1 = w_trainerUserId workspace"
      by (rule getWorkspaceByToken_same_workspaces)
    from again(5) same(2) have c1: "membershipCount db1 (w_id workspace1) userId > 0"
      by (simp add: membershipCount_def w1(2))
    from again(4) w1(3) have o1: "w_trainerUserId workspace1 \<noteq> userId" by simp
    have second: "postJoin rt' db1 session token
        = (updateUser db1 (rt_now rt') userId ownerUpdates, alreadyMemberOf workspaceId)"
      using postJoin_member [OF assms(1) again(2) w1(1) o1 c1, of rt'] again(1) w1(2) wid
      by simp
    have after: "workspaceMembers (updateUser db1 (rt_now rt') userId ownerUpdates) = workspaceMembers db1"
      "membershipCount (updateUser db1 (rt_now rt') userId ownerUpdates) workspaceId userId
         = membershipCount db1 workspaceId userId"
      by (simp_all add: membershipCount_def updateUser_other_tables)
    have "res_status res1 \<noteq> 201"
      using again(7) by (simp add: res_json_def status_json_def)
    moreover have "membershipCount db1 workspaceId userId = membershipCount db workspaceId userId"
      using same(2) by (simp add: membershipCount_def)
    moreover have "membershipCount db workspaceId userId > 0"
      using again(5) wid by simp
    ultimately show ?thesis
      using second after by auto
  next
    case (first t workspace db' m)
    from first(8) assms(4) have wid: "workspaceId = w_id workspace"
      by (simp add: status_json_def)
    from first(6) have added: "workspaces db' = workspaces db"
      "workspaceMembers db' = workspaceMembers db @ [m]"
      "m_workspaceId m = w_id workspace" "m_userId m = userId"
      by (auto dest: addWorkspaceMember_Inr)
    with first(7) have same: "workspaces db1 = workspaces db"
      "workspaceMembers db1 = workspaceMembers db @ [m]"
      by (simp_all add: updateUser_other_tables)
    from first(3) same(1) obtain workspace1
      where w1: "getWorkspaceByToken db1 t = Some workspace1" "w_id workspace1 = w_id workspace"
        "w_trainerUserId workspace1 = w_trainerUserId workspace"
      by (rule getWorkspaceByToken_same_workspaces)
    from first(5) same(2) added(3,4) have one: "membershipCount db1 (w_id workspace) userId = 1"
      by (simp add: membershipCount_def)
    then have c1: "membershipCount db1 (w_id workspace1) userId > 0" by (simp add: w1(2))
    from first(4) w1(3) have o1: "w_trainerUserId workspace1 \<noteq> userId" by simp
    have second: "postJoin rt' db1 session token
        = (updateUser db1 (rt_now rt') userId ownerUpdates, alreadyMemberOf workspaceId)"
      using postJoin_member [OF assms(1) first(2) w1(1) o1 c1, of rt'] first(1) w1(2) wid
      by simp
    have after: "workspaceMembers (updateUser db1 (rt_now rt') userId ownerUpdates) = workspaceMembers db1"
      "membershipCount (updateUser db1 (rt_now rt') userId ownerUpdates) workspaceId userId
         = membershipCount db1 workspaceId userId"
      by (simp_all add: membershipCount_def updateUser_other_tables)
    from second after one first(5) wid show ?thesis
      by auto
  qed
qed

theorem postJoin_second_join_already_member_witness:
  "getUserId (Some ''u-new'') = Some ''u-new''
   \<and> postJoin laterRuntime trainerDb (Some ''u-new'') (Some ''tok-fresh'')
       = (joinedDb, status_json 201 (JoinBody ''uuid-'' None))
   \<and> membershipCount trainerDb ''uuid-'' ''u-new'' = 0
   \<and> membershipCount joinedDb ''uuid-'' ''u-new'' = 1
   \<and> snd (postJoin lastRuntime joinedDb (Some ''u-new'') (Some ''tok-fresh'')) = alreadyMemberOf ''uuid-''
   \<and> workspaceMembers (fst (postJoin lastRuntime joinedDb (Some ''u-new'') (Some ''tok-fresh'')))
       = workspaceMembers joinedDb
   \<and> membershipCount (fst (postJoin lastRuntime joinedDb (Some ''u-new'') (Some ''tok-fresh'')))
        ''uuid-'' ''u-new'' = 1"
proof -
  let ?res = "status_json 201 (JoinBody ''uuid-'' None)"
  have u: "getUserId (Some ''u-new'') = Some ''u-new''" by (simp add: getUserId_def)
  have "snd (postJoin laterRuntime trainerDb (Some ''u-new'') (Some ''tok-fresh'')) = ?res"
    by code_simp
  then have r: "postJoin laterRuntime trainerDb (Some ''u-new'') (Some ''tok-fresh'') = (joinedDb, ?res)"
    by (simp add: joinedDb_def prod_eq_iff)
  have s: "successful ?res" by (simp add: successful_def status_json_def)
  have b: "res_body ?res = JoinBody ''uuid-'' None" by (simp add: status_json_def)
  have c: "res_status ?res = 201" by (simp add: status_json_def)
  note second = postJoin_second_join_already_member [OF u r s b, of lastRuntime]
  from second c have "membershipCount trainerDb ''uuid-'' ''u-new'' = 0"
    "membershipCount joinedDb ''uuid-'' ''u-new'' = 1"
    by blast+
  moreover from second
  have "snd (postJoin lastRuntime joinedDb (Some ''u-new'') (Some ''tok-fresh'')) = alreadyMemberOf ''uuid-''"
    "workspaceMembers (fst (postJoin lastRuntime joinedDb (Some ''u-new'') (Some ''tok-fresh'')))
       = workspaceMembers joinedDb"
    "membershipCount (fst (postJoin lastRuntime joinedDb (Some ''u-new'') (Some ''tok-fresh'')))
        ''uuid-'' ''u-new'' = membershipCount joinedDb ''uuid-'' ''u-new''"
    by blast+
  ultimately show ?thesis using u r by simp
qed

text \<open>
  Claim C7. Every join that is answered with a 2xx status (201 for a new member, 200
  for one who was a member already) leaves the joining user's row with role OWNER and
  \<open>onboardingComplete = false\<close>; the other columns keep their values, except
  \<open>updatedAt\<close>.
\<close>

theorem postJoin_success_makes_owner:
  assumes "postJoin rt db session token = (db', res)"
    and "successful res"
    and "getUserId session = Some userId"
    and "getUser db userId = Some u"
  shows "getUser db' userId
           = Some (u\<lparr>u_role := Some ''OWNER'', u_onboardingComplete := False,
                     u_updatedAt := rt_now rt\<rparr>)"
proof -
  from assms(3) obtain sub where s: "session = Some sub" by (cases session) (auto simp: getUserId_def)
  show ?thesis
  proof (cases "orNull token")
    case None
    with assms s show ?thesis by (auto simp: postJoin_def successful_def status_json_def)
  next
    case (Some token')
    show ?thesis
    proof (cases "getWorkspaceByToken db token'")
      case None
      with Some assms s show ?thesis by (auto simp: postJoin_def successful_def status_json_def)
    next
      case ws: (Some workspace)
      show ?thesis
      proof (cases "w_trainerUserId workspace = userId")
        case True
        with ws Some assms s show ?thesis
          by (auto simp: postJoin_def successful_def status_json_def)
      next
        case other: False
        show ?thesis
        proof (cases "list_ex (\<lambda>m. m_userId m = userId) (getWorkspaceMembers db (w_id workspace))")
          case True
          with other ws Some assms(1,3) s
          have "db' = updateUser db (rt_now rt) userId ownerUpdates"
            by (auto simp: postJoin_def Let_def)
          with assms(4) show ?thesis by (simp add: getUser_ownerUpdates)
        next
          case False
          show ?thesis
          proof (cases "addWorkspaceMember db (rt_now rt) (rt_uuid rt 0) (w_id workspace) userId ''OWNER''")
            case (Inl e)
            with False other ws Some assms s show ?thesis
              by (auto simp: postJoin_def Let_def successful_def status_json_def)
          next
            case (Inr r)
            obtain db1 m where r: "r = (db1, m)" by (cases r)
            with Inr False other ws Some assms(1,3) s
            have d: "db' = updateUser db1 (rt_now rt) userId ownerUpdates"
              by (auto simp: postJoin_def Let_def)
            from Inr r have "users db1 = users db" by (auto dest: addWorkspaceMember_Inr)
            with assms(4) have "getUser db1 userId = Some u" by (simp add: getUser_def)
            with d show ?thesis by (simp add: getUser_ownerUpdates)
          qed
        qed
      qed
    qed
  qed
qed

theorem postJoin_success_makes_owner_witness:
  "successful (snd (postJoin laterRuntime trainerDb (Some ''u-new'') (Some ''tok-fresh'')))
   \<and> getUser trainerDb ''u-new'' = Some newcomer
   \<and> getUser joinedDb ''u-new''
       = Some (newcomer\<lparr>u_role := Some ''OWNER'', u_onboardingComplete := False, u_updatedAt := 6000\<rparr>)"
proof -
  let ?res = "snd (postJoin laterRuntime trainerDb (Some ''u-new'') (Some ''tok-fresh''))"
  have r: "postJoin laterRuntime trainerDb (Some ''u-new'') (Some ''tok-fresh'') = (joinedDb, ?res)"
    by (simp add: joinedDb_def)
  have s: "successful ?res" by code_simp
  have u: "getUserId (Some ''u-new'') = Some ''u-new''" by (simp add: getUserId_def)
  have g: "getUser trainerDb ''u-new'' = Some newcomer" by code_simp
  from postJoin_success_makes_owner [OF r s u g] s g
  show ?thesis by (simp add: laterRuntime_def)
qed

section \<open>Preferred days and submissions: proofs\<close>

lemma getTask_updateTask:
  assumes "getTask db taskId = Some task"
  shows "getTask (updateTask db taskId (preferredDaysUpdate days)) taskId
     = Some (task\<lparr>t_preferredDays := days\<rparr>)"
proof -
  let ?f = "\<lambda>t. t\<lparr>t_preferredDays := days\<rparr>"
  have u: "homeworkTasks (updateTask db taskId (preferredDaysUpdate days))
      = map (\<lambda>t. if t_id t = taskId then ?f t else t) (homeworkTasks db)"
    by (simp add: updateTask_def preferredDaysUpdate_def setColumn_def)
  have "find (\<lambda>t. t_id t = taskId) (map (\<lambda>t. if t_id t = taskId then ?f t else t) (homeworkTasks db))
      = map_option (\<lambda>t. if t_id t = taskId then ?f t else t) (find (\<lambda>t. t_id t = taskId) (homeworkTasks db))"
    by (rule find_map_same_key) simp
  moreover from assms have "t_id task = taskId"
    by (auto simp: getTask_def dest: find_SomeD)
  ultimately show ?thesis
    using assms by (simp add: getTask_def u)
qed

lemma accepted_array:
  "acceptedPreferredDays (JArray ds) = list_all (\<lambda>d. arrayIncludes validDays d) ds"
proof -
  have "arrayIncludes validDays d
      = (\<exists>day \<in> {''Mon'', ''Tue'', ''Wed'', ''Thu'', ''Fri'', ''Sat'', ''Sun''}. d = JString day)" for d
    by (cases d) (auto simp: validDays_def)
  then show ?thesis by (simp add: list_all_iff)
qed

lemma accepted_iff_passes_check:
  "acceptedPreferredDays preferredDays
     = (\<not> (preferredDays \<noteq> JNull
            \<and> (\<not> isArray preferredDays
                \<or> \<not> list_all (\<lambda>d. arrayIncludes validDays d) (elements preferredDays))))"
  by (cases preferredDays) (simp_all add: accepted_array del: acceptedPreferredDays.simps(2))

lemma stored_value:
  "(if truthy preferredDays \<and> length (elements preferredDays) > 0
    then Some (dayStrings (elements preferredDays)) else None) = storedPreferredDays preferredDays"
proof (cases preferredDays)
  case (JArray ds)
  then show ?thesis by (cases ds) simp_all
qed simp_all

lemma dayStrings_map_JString: "dayStrings (map JString days) = days"
  by (induction days) simp_all

text \<open>
  Claim C10. A request to set a task's preferred days, from a signed-in user who owns
  the task's pet or is an admin: a value that is \<open>null\<close> or an array of weekday
  abbreviations (Mon ... Sun) is accepted, answered with 200 and stored, \<open>null\<close> and
  the empty array as \<open>null\<close>, a non-empty array as given; any other value is
  answered with 400 "Invalid preferred days" and the database (the task with it) stays
  as it was.
\<close>

theorem patchPreferredDays_accepts_and_stores:
  assumes "getUserWithRole db session = Some user"
    and "getTask db taskId = Some task"
    and "getPet db (t_petId task) = Some pet"
    and "p_ownerId pet = u_id user \<or> u_role user = Some ''ADMIN''"
  shows "(acceptedPreferredDays preferredDays \<longrightarrow>
            fst (patchPreferredDays db session taskId preferredDays)
              = updateTask db taskId (preferredDaysUpdate (storedPreferredDays preferredDays))
            \<and> res_status (snd (patchPreferredDays db session taskId preferredDays)) = 200
            \<and> getTask (fst (patchPreferredDays db session taskId preferredDays)) taskId
                = Some (task\<lparr>t_preferredDays := storedPreferredDays preferredDays\<rparr>))
         \<and> (\<not> acceptedPreferredDays preferredDays \<longrightarrow>
              patchPreferredDays db session taskId preferredDays
                = (db, status_json 400 (Message ''Invalid preferred days'')))
         \<and> storedPreferredDays JNull = None \<and> storedPreferredDays (JArray []) = None
         \<and> (days \<noteq> [] \<longrightarrow> storedPreferredDays (JArray (map JString days)) = Some days)"
proof -
  from assms(1) obtain sub where s: "session = Some sub"
    by (cases session) (auto simp: getUserWithRole_def getUserId_def)
  have stored: "days \<noteq> [] \<longrightarrow> storedPreferredDays (JArray (map JString days)) = Some days"
    using dayStrings_map_JString [of days] by (cases days) auto
  show ?thesis
  proof (cases "acceptedPreferredDays preferredDays")
    case True
    then have pass: "\<not> (preferredDays \<noteq> JNull
            \<and> (\<not> isArray preferredDays
                \<or> \<not> list_all (\<lambda>d. arrayIncludes validDays d) (elements preferredDays)))"
      using accepted_iff_passes_check [of preferredDays] by blast
    have "patchPreferredDays db session taskId preferredDays
        = (updateTask db taskId (preferredDaysUpdate (storedPreferredDays preferredDays)),
           res_json (TaskBody (getTask (updateTask db taskId
              (preferredDaysUpdate (storedPreferredDays preferredDays))) taskId)))"
      using assms s pass unfolding patchPreferredDays_def stored_value Let_def
      by (simp split: option.splits) blast
    with True stored assms(2) show ?thesis
      by (simp add: getTask_updateTask res_json_def status_json_def)
  next
    case False
    then have fail: "preferredDays \<noteq> JNull
            \<and> (\<not> isArray preferredDays
                \<or> \<not> list_all (\<lambda>d. arrayIncludes validDays d) (elements preferredDays))"
      using accepted_iff_passes_check [of preferredDays] by blast
    have "patchPreferredDays db session taskId preferredDays
        = (db, status_json 400 (Message ''Invalid preferred days''))"
      using assms s fail by (auto simp: patchPreferredDays_def)
    with False stored show ?thesis by simp
  qed
qed

theorem patchPreferredDays_accepts_and_stores_witness:
  "getUserWithRole demoDb (Some ''u-emily'') = Some emily
   \<and> getTask demoDb ''t-sit'' = Some sitTask
   \<and> getPet demoDb (t_petId sitTask) = Some buddy
   \<and> p_ownerId buddy = u_id emily
   \<and> acceptedPreferredDays (JArray [JString ''Mon'', JString ''Wed''])
   \<and> getTask (fst (patchPreferredDays demoDb (Some ''u-emily'') ''t-sit''
                      (JArray [JString ''Mon'', JString ''Wed'']))) ''t-sit''
       = Some (sitTask\<lparr>t_preferredDays := Some [''Mon'', ''Wed'']\<rparr>)
   \<and> patchPreferredDays demoDb (Some ''u-emily'') ''t-sit'' (JArray [JString ''Mon'', JString ''Funday''])
       = (demoDb, status_json 400 (Message ''Invalid preferred days''))"
proof -
  have u: "getUserWithRole demoDb (Some ''u-emily'') = Some emily" by code_simp
  have t: "getTask demoDb ''t-sit'' = Some sitTask" by code_simp
  have p: "getPet demoDb (t_petId sitTask) = Some buddy" by code_simp
  have o: "p_ownerId buddy = u_id emily" by code_simp
  then have o': "p_ownerId buddy = u_id emily \<or> u_role emily = Some ''ADMIN''" by simp
  have a: "acceptedPreferredDays (JArray [JString ''Mon'', JString ''Wed''])" by simp
  have r: "\<not> acceptedPreferredDays (JArray [JString ''Mon'', JString ''Funday''])" by simp
  have sv: "storedPreferredDays (JArray [JString ''Mon'', JString ''Wed'']) = Some [''Mon'', ''Wed'']"
    by simp
  from patchPreferredDays_accepts_and_stores [OF u t p o',
      of "JArray [JString ''Mon'', JString ''Wed'']" "[''Mon'', ''Wed'']"] a
  have "getTask (fst (patchPreferredDays demoDb (Some ''u-emily'') ''t-sit''
                      (JArray [JString ''Mon'', JString ''Wed'']))) ''t-sit''
       = Some (sitTask\<lparr>t_preferredDays := storedPreferredDays (JArray [JString ''Mon'', JString ''Wed''])\<rparr>)"
    by blast
  then have g: "getTask (fst (patchPreferredDays demoDb (Some ''u-emily'') ''t-sit''
                      (JArray [JString ''Mon'', JString ''Wed'']))) ''t-sit''
       = Some (sitTask\<lparr>t_preferredDays := Some [''Mon'', ''Wed'']\<rparr>)"
    by (simp only: sv)
  from patchPreferredDays_accepts_and_stores [OF u t p o',
      of "JArray [JString ''Mon'', JString ''Funday'']" "[]"] r
  have h: "patchPreferredDays demoDb (Some ''u-emily'') ''t-sit'' (JArray [JString ''Mon'', JString ''Funday''])
       = (demoDb, status_json 400 (Message ''Invalid preferred days''))"
    by blast
  from u t p o a g h show ?thesis by blast
qed

lemma createSubmissionMedia_keeps_submissions:
  "createSubmissionMedia db now newId submissionId mediaType filePath fileName = Inr (db', m) \<Longrightarrow>
   homeworkSubmissions db' = homeworkSubmissions db"
  by (auto simp: createSubmissionMedia_def Let_def split: option.splits if_splits)

lemma createMediaRows_keeps_submissions:
  "homeworkSubmissions (fst (createMediaRows rt k db submissionId items)) = homeworkSubmissions db"
proof (induction items arbitrary: k db)
  case Nil
  show ?case by simp
next
  case (Cons item items)
  show ?case
  proof (cases "createSubmissionMedia db (rt_now rt) (rt_uuid rt k) submissionId
             (mi_mediaType item) (mi_filePath item) (orNull (mi_fileName item))")
    case (Inl e)
    then show ?thesis by simp
  next
    case (Inr r)
    obtain db' m where r: "r = (db', m)" by (cases r)
    with Inr Cons.IH [of "Suc k" db'] show ?thesis
      by (simp add: createSubmissionMedia_keeps_submissions)
  qed
qed

lemma requireOwner_InrD:
  "requireOwner db session = Inr user \<Longrightarrow>
   session = Some (u_id user) \<and> getUser db (u_id user) = Some user
   \<and> (u_role user = Some ''OWNER'' \<or> u_role user = Some ''ADMIN'')"
  by (auto simp: requireOwner_def getUserWithRole_def getUserId_def getUser_def
      split: option.splits if_splits dest: find_SomeD)

lemma requireOwner_Inl_status:
  "requireOwner db session = Inl refused \<Longrightarrow> res_status refused = 403"
  by (auto simp: requireOwner_def status_json_def split: option.splits if_splits)

lemma note_text: "list_all pgText (textOf (orNull note)) = pgText (orEmpty note)"
  by (cases "note") (simp_all add: textOf_def orNull_def orEmpty_def pgText_def)

text \<open>
  Claim C5 (as amended). A submission request whose task exists and is closed
  (\<open>isActive = false\<close>) changes nothing in the database and is answered with a
  4xx status: 400 with the closed-task message once the request has passed
  \<open>isAuthenticated\<close> and \<open>requireOwner\<close>, and 401 or 403 from those two
  otherwise. A request by a user with the OWNER or ADMIN role for an open task of a pet
  that user owns appends one submission row (task, submitter, note, status COMPLETED)
  to the table when PostgreSQL accepts the note as text (it has no NUL character),
  given that the generated id is not the id of a row already there; when the note
  contains a NUL character the insert throws, the request is answered with 500 and
  the database stays as it was.
\<close>

theorem postSubmissions_closed_task_rejected_open_task_stored:
  assumes "getTask db taskId = Some task"
  shows "(\<not> t_isActive task \<longrightarrow>
            fst (postSubmissions rt db session taskId note media) = db
            \<and> clientError (snd (postSubmissions rt db session taskId note media))
            \<and> (requireOwner db session = Inr user \<longrightarrow>
                 snd (postSubmissions rt db session taskId note media)
                   = status_json 400
                       (Message ''This task has been closed and no longer accepts submissions'')))
         \<and> (t_isActive task \<and> requireOwner db session = Inr user
              \<and> getPet db (t_petId task) = Some pet \<and> p_ownerId pet = u_id user
              \<and> rt_uuid rt 0 \<notin> set (map s_id (homeworkSubmissions db))
              \<and> pgText (orEmpty note) \<longrightarrow>
              homeworkSubmissions (fst (postSubmissions rt db session taskId note media))
                = homeworkSubmissions db
                  @ [\<lparr>s_id = rt_uuid rt 0, s_taskId = taskId, s_submittedByUserId = u_id user,
                      s_note = orNull note, s_status = ''COMPLETED'', s_submittedAt = rt_now rt,
                      s_createdAt = rt_now rt\<rparr>])
         \<and> (t_isActive task \<and> requireOwner db session = Inr user
              \<and> getPet db (t_petId task) = Some pet \<and> p_ownerId pet = u_id user
              \<and> \<not> pgText (orEmpty note) \<longrightarrow>
              postSubmissions rt db session taskId note media
                = (db, status_json 500 (Message ''Failed to create submission'')))"
proof (intro conjI impI)
  assume closed: "\<not> t_isActive task"
  show "fst (postSubmissions rt db session taskId note media) = db"
    using assms closed
    by (auto simp: postSubmissions_def split: option.splits sum.splits)
  show "clientError (snd (postSubmissions rt db session taskId note media))"
    using assms closed
    by (auto simp: postSubmissions_def clientError_def unauthenticated_def status_json_def
        split: option.splits sum.splits dest: requireOwner_Inl_status)
  assume "requireOwner db session = Inr user"
  then show "snd (postSubmissions rt db session taskId note media)
      = status_json 400 (Message ''This task has been closed and no longer accepts submissions'')"
    using assms closed
    by (auto simp: postSubmissions_def split: option.splits dest: requireOwner_InrD)
next
  assume a: "t_isActive task \<and> requireOwner db session = Inr user
      \<and> getPet db (t_petId task) = Some pet \<and> p_ownerId pet = u_id user
      \<and> rt_uuid rt 0 \<notin> set (map s_id (homeworkSubmissions db))
      \<and> pgText (orEmpty note)"
  let ?row = "\<lparr>s_id = rt_uuid rt 0, s_taskId = taskId, s_submittedByUserId = u_id user,
                s_note = orNull note, s_status = ''COMPLETED'', s_submittedAt = rt_now rt,
                s_createdAt = rt_now rt\<rparr>"
  let ?db1 = "db\<lparr>homeworkSubmissions := homeworkSubmissions db @ [?row]\<rparr>"
  from a have s: "session = Some (u_id user)" and u: "getUser db (u_id user) = Some user"
    by (auto dest: requireOwner_InrD)
  from a have texts: "list_all pgText (''COMPLETED'' # textOf (orNull note))"
    by (simp add: note_text) (simp add: pgText_def)
  from assms have "taskId \<in> set (map t_id (homeworkTasks db))"
    by (auto simp: getTask_def dest!: find_SomeD)
  moreover from u have "u_id user \<in> set (map u_id (users db))"
    by (auto simp: getUser_def dest!: find_SomeD)
  ultimately have c: "createSubmission db (rt_now rt) (rt_uuid rt 0) taskId (u_id user)
      (orNull note) ''COMPLETED'' = Inr (?db1, ?row)"
    using a texts by (simp add: createSubmission_def Let_def)
  let ?items = "case media of None \<Rightarrow> [] | Some items \<Rightarrow> items"
  have "fst (postSubmissions rt db session taskId note media)
      = fst (createMediaRows rt 1 ?db1 (rt_uuid rt 0) ?items)"
    using assms a s c
    by (simp add: postSubmissions_def split: prod.splits option.splits)
  then show "homeworkSubmissions (fst (postSubmissions rt db session taskId note media))
      = homeworkSubmissions db @ [?row]"
    by (simp add: createMediaRows_keeps_submissions)
next
  assume a: "t_isActive task \<and> requireOwner db session = Inr user
      \<and> getPet db (t_petId task) = Some pet \<and> p_ownerId pet = u_id user
      \<and> \<not> pgText (orEmpty note)"
  from a have s: "session = Some (u_id user)"
    by (auto dest: requireOwner_InrD)
  from a have "\<not> list_all pgText (''COMPLETED'' # textOf (orNull note))"
    by (simp add: note_text)
  then have "createSubmission db (rt_now rt) (rt_uuid rt 0) taskId (u_id user)
      (orNull note) ''COMPLETED'' = Inl InvalidText"
    by (simp add: createSubmission_def)
  with assms a s show "postSubmissions rt db session taskId note media
      = (db, status_json 500 (Message ''Failed to create submission''))"
    by (simp add: postSubmissions_def)
qed

theorem postSubmissions_closed_task_rejected_open_task_stored_witness:
  "getTask demoDb ''t-closed'' = Some closedTask \<and> \<not> t_isActive closedTask
   \<and> postSubmissions demoRuntime demoDb (Some ''u-emily'') ''t-closed'' (Some ''done'') None
       = (demoDb, status_json 400
            (Message ''This task has been closed and no longer accepts submissions''))
   \<and> getTask demoDb ''t-sit'' = Some sitTask \<and> t_isActive sitTask
   \<and> requireOwner demoDb (Some ''u-emily'') = Inr emily
   \<and> pgText (orEmpty (Some ''done''))
   \<and> homeworkSubmissions (fst (postSubmissions demoRuntime demoDb (Some ''u-emily'') ''t-sit''
                                   (Some ''done'') None))
       = [sitSubmission,
          \<lparr>s_id = ''uuid-'', s_taskId = ''t-sit'', s_submittedByUserId = ''u-emily'',
            s_note = Some ''done'', s_status = ''COMPLETED'', s_submittedAt = 5000,
            s_createdAt = 5000\<rparr>]"
proof -
  have c: "getTask demoDb ''t-closed'' = Some closedTask" "\<not> t_isActive closedTask" by code_simp+
  have o: "getTask demoDb ''t-sit'' = Some sitTask" "t_isActive sitTask" by code_simp+
  have e: "requireOwner demoDb (Some ''u-emily'') = Inr emily" by code_simp
  have p: "getPet demoDb (t_petId sitTask) = Some buddy" "p_ownerId buddy = u_id emily"
    "rt_uuid demoRuntime 0 \<notin> set (map s_id (homeworkSubmissions demoDb))"
    by code_simp+
  have n: "pgText (orEmpty (Some ''done''))" by (simp add: pgText_def orEmpty_def)
  from postSubmissions_closed_task_rejected_open_task_stored
         [OF c(1), of demoRuntime "Some ''u-emily''" "Some ''done''" None emily] c(2) e
  have "fst (postSubmissions demoRuntime demoDb (Some ''u-emily'') ''t-closed'' (Some ''done'') None) = demoDb"
    "snd (postSubmissions demoRuntime demoDb (Some ''u-emily'') ''t-closed'' (Some ''done'') None)
       = status_json 400 (Message ''This task has been closed and no longer accepts submissions'')"
    by blast+
  then have closed: "postSubmissions demoRuntime demoDb (Some ''u-emily'') ''t-closed'' (Some ''done'') None
       = (demoDb, status_json 400
            (Message ''This task has been closed and no longer accepts submissions''))"
    by (simp add: prod_eq_iff)
  from postSubmissions_closed_task_rejected_open_task_stored
         [OF o(1), of demoRuntime "Some ''u-emily''" "Some ''done''" None emily buddy] o(2) e p n
  have "homeworkSubmissions (fst (postSubmissions demoRuntime demoDb (Some ''u-emily'') ''t-sit''
                                   (Some ''done'') None))
       = homeworkSubmissions demoDb
         @ [\<lparr>s_id = rt_uuid demoRuntime 0, s_taskId = ''t-sit'', s_submittedByUserId = u_id emily,
             s_note = orNull (Some ''done''), s_status = ''COMPLETED'',
             s_submittedAt = rt_now demoRuntime, s_createdAt = rt_now demoRuntime\<rparr>]"
    by blast
  then have opened: "homeworkSubmissions (fst (postSubmissions demoRuntime demoDb (Some ''u-emily'') ''t-sit''
                                   (Some ''done'') None))
       = [sitSubmission,
          \<lparr>s_id = ''uuid-'', s_taskId = ''t-sit'', s_submittedByUserId = ''u-emily'',
            s_note = Some ''done'', s_status = ''COMPLETED'', s_submittedAt = 5000,
            s_createdAt = 5000\<rparr>]"
    by (simp add: demoRuntime_def demoDb_def emily_def orNull_def)
  from c o e n closed opened show ?thesis by blast
qed

text \<open>
  The claim as it is worded has a submission row created for every submission against
  an open task of a pet the requester owns. When the note contains a NUL character
  PostgreSQL refuses the insert: the handler's \<^verbatim>\<open>catch\<close> block answers 500 and no
  row is created.
\<close>

theorem postSubmissions_nul_note_counterexample:
  "getTask demoDb ''t-sit'' = Some sitTask \<and> t_isActive sitTask
   \<and> requireOwner demoDb (Some ''u-emily'') = Inr emily
   \<and> getPet demoDb (t_petId sitTask) = Some buddy \<and> p_ownerId buddy = u_id emily
   \<and> postSubmissions demoRuntime demoDb (Some ''u-emily'') ''t-sit'' (Some (''done'' @ [CHR 0x00])) None
       = (demoDb, status_json 500 (Message ''Failed to create submission''))
   \<and> homeworkSubmissions demoDb = [sitSubmission]"
  by code_simp

section \<open>Trainer profile: proofs\<close>

lemma join_Cons: "parts \<noteq> [] \<Longrightarrow> join sep (part # parts) = part @ sep @ join sep parts"
  by (cases parts) simp_all

lemma join_Cons_char: "join sep ((c # part) # parts) = c # join sep (part # parts)"
  by (cases parts) simp_all

lemma split_shape:
  "split sep s = takeWhile (\<lambda>c. c \<noteq> sep) s
                 # (case dropWhile (\<lambda>c. c \<noteq> sep) s of [] \<Rightarrow> [] | _ # rest \<Rightarrow> split sep rest)"
  by (induction s) simp_all

lemma join_split: "join [sep] (split sep s) = s"
proof (induction s)
  case Nil
  show ?case by simp
next
  case (Cons c cs)
  show ?case
  proof (cases "c = sep")
    case True
    have "split sep cs \<noteq> []" by (subst split_shape) simp
    with True Cons.IH show ?thesis by (simp add: join_Cons)
  next
    case False
    obtain part parts where p: "split sep cs = part # parts"
      by (subst (asm) split_shape) blast
    with False Cons.IH show ?thesis by (simp add: join_Cons_char)
  qed
qed

lemma drop_split:
  "drop 1 (split sep s)
     = (case dropWhile (\<lambda>c. c \<noteq> sep) s of [] \<Rightarrow> [] | _ # rest \<Rightarrow> split sep rest)"
  by (subst split_shape) simp

lemma other_parts: "join '' '' (drop 1 (split (CHR '' '') s)) = remainder s"
proof (cases "dropWhile (\<lambda>c. c \<noteq> CHR '' '') s")
  case Nil
  then show ?thesis by (simp only: drop_split remainder_def list.case join.simps drop_Nil)
next
  case (Cons c rest)
  then have "drop 1 (split (CHR '' '') s) = split (CHR '' '') rest"
    by (simp only: drop_split list.case)
  with Cons show ?thesis by (simp add: remainder_def join_split)
qed

lemma trainerUpdates_split:
  "trainerUpdates (split (CHR '' '') s) profilePhoto =
     \<lparr>up_firstName = Some (Some (firstToken s)),
      up_lastName = Some (orNull (Some (remainder s))),
      up_profileImageUrl = (case orNull profilePhoto of None \<Rightarrow> None | Some photo \<Rightarrow> Some (Some photo)),
      up_role = Some (Some ''TRAINER''),
      up_onboardingComplete = Some True\<rparr>"
proof -
  obtain parts where sp: "split (CHR '' '') s = firstToken s # parts"
    unfolding firstToken_def using split_shape by blast
  with other_parts [of s] have "join '' '' parts = remainder s" by simp
  with sp show ?thesis by (simp add: trainerUpdates_def)
qed





lemma orNull_text: "list_all pgText (textOf (orNull x)) = pgText (orEmpty x)"
  by (cases x) (simp_all add: textOf_def orNull_def orEmpty_def pgText_def)

lemma name_parts_text:
  "pgText s \<Longrightarrow> pgText (firstToken s) \<and> pgText (remainder s)"
  by (auto simp: pgText_def firstToken_def remainder_def
      dest: set_takeWhileD in_set_dropD set_dropWhileD)

lemma name_parts_cover:
  assumes "c \<in> set s" and "c \<noteq> CHR '' ''"
  shows "c \<in> set (firstToken s) \<or> c \<in> set (remainder s)"
proof -
  let ?P = "\<lambda>c. c \<noteq> CHR '' ''"
  have s: "s = takeWhile ?P s @ dropWhile ?P s" by simp
  show ?thesis
  proof (cases "dropWhile ?P s")
    case Nil
    with s assms(1) show ?thesis by (simp add: firstToken_def)
  next
    case (Cons x rest)
    then have "x = CHR '' ''" using hd_dropWhile [of ?P s] by auto
    moreover from assms(1) s have "c \<in> set (takeWhile ?P s) \<or> c \<in> set (dropWhile ?P s)"
      by (metis Un_iff set_append)
    ultimately show ?thesis using Cons assms(2) by (auto simp: firstToken_def remainder_def)
  qed
qed

lemma trainerUpdates_texts:
  "list_all pgText (userUpdateTexts (trainerUpdates (split (CHR '' '') s) profilePhoto))
     = (pgText s \<and> pgText (orEmpty profilePhoto))"
proof -
  have parts: "(pgText (firstToken s) \<and> pgText (remainder s)) = pgText s"
  proof
    assume "pgText (firstToken s) \<and> pgText (remainder s)"
    then show "pgText s"
      using name_parts_cover [of "CHR 0x00" s] by (auto simp: pgText_def)
  qed (rule name_parts_text)
  have last: "list_all pgText (textOf (orNull (Some (remainder s)))) = pgText (remainder s)"
    by (simp add: orNull_text orEmpty_def)
  have photo: "list_all pgText (case orNull profilePhoto of None \<Rightarrow> [] | Some photo \<Rightarrow> textOf (Some photo))
      = pgText (orEmpty profilePhoto)"
    using orNull_text [of profilePhoto] by (simp add: textOf_def split: option.splits)
  have role: "pgText ''TRAINER''" by (simp add: pgText_def)
  have "list_all pgText (userUpdateTexts (trainerUpdates (split (CHR '' '') s) profilePhoto))
      = (pgText (firstToken s) \<and> list_all pgText (textOf (orNull (Some (remainder s))))
         \<and> list_all pgText (case orNull profilePhoto of None \<Rightarrow> [] | Some photo \<Rightarrow> textOf (Some photo)))"
    using role
    by (simp add: trainerUpdates_split userUpdateTexts_def textOf_def split: option.splits)
  then show ?thesis by (simp only: last photo) (use parts in blast)
qed

text \<open>
  A display name with a NUL character: the first statement of the handler throws,
  nothing is written and the request is answered with 500.
\<close>

lemma postTrainerProfile_refused_name:
  assumes "getUserId session = Some userId"
    and "name \<noteq> []" and "trim name \<noteq> []"
    and "\<not> pgText (trim name)"
  shows "postTrainerProfile trim rt db session (Some name) businessName bio profilePhoto
           = (db, status_json 500 (Message ''Failed to update profile''))"
proof -
  from assms(1) obtain sub where s: "session = Some sub"
    by (cases session) (auto simp: getUserId_def)
  from assms(4) have "\<not> list_all pgText
      (userUpdateTexts (trainerUpdates (split (CHR '' '') (trim name)) profilePhoto))"
    by (simp only: trainerUpdates_texts simp_thms)
  with s assms(1-3) show ?thesis
    by (simp add: postTrainerProfile_def orNull_def Let_def sent_refused)
qed





end
